theory Spec2Isabelle
  imports Complex_Main "HOL-Library.AList" "HOL-Library.Log_Nat"
begin

section \<open>JavaScript values as the two scripts observe them\<close>

subsection \<open>Strings\<close>

text \<open>
  A JavaScript string is modelled as a \<^typ>\<open>string\<close>, one \<^typ>\<open>char\<close> per code unit, so
  \<^verbatim>\<open>s.slice(0, 200)\<close> is \<^term>\<open>take 200 s\<close> and a template literal is list append.
  Case conversion is the ASCII one. A string is truthy when it is not empty.
\<close>

definition upper_letters :: string where
  "upper_letters = ''ABCDEFGHIJKLMNOPQRSTUVWXYZ''"

definition lower_letters :: string where
  "lower_letters = ''abcdefghijklmnopqrstuvwxyz''"

definition toLowerCase :: "string \<Rightarrow> string" where
  "toLowerCase s =
     map (\<lambda>c. case map_of (zip upper_letters lower_letters) c of Some d \<Rightarrow> d | None \<Rightarrow> c) s"

definition toUpperCase :: "string \<Rightarrow> string" where
  "toUpperCase s =
     map (\<lambda>c. case map_of (zip lower_letters upper_letters) c of Some d \<Rightarrow> d | None \<Rightarrow> c) s"

text \<open>ASCII whitespace of the DOM standard: TAB, LF, FF, CR and SPACE.\<close>

definition ascii_whitespace :: "char \<Rightarrow> bool" where
  "ascii_whitespace c \<longleftrightarrow> c \<in> set [CHR 0x09, CHR 0x0A, CHR 0x0C, CHR 0x0D, CHR '' '']"

text \<open>
  What \<^verbatim>\<open>String.prototype.trim\<close> strips, among the code units below 256: the DOM set,
  VT and the no-break space U+00A0.
\<close>

definition trim_whitespace :: "char \<Rightarrow> bool" where
  "trim_whitespace c \<longleftrightarrow> ascii_whitespace c \<or> c = CHR 0x0B \<or> c = CHR 0xA0"

definition trim :: "string \<Rightarrow> string" where
  "trim s = rev (dropWhile trim_whitespace (rev (dropWhile trim_whitespace s)))"

fun join :: "string \<Rightarrow> string list \<Rightarrow> string" where
  "join sep [] = []"
| "join sep [x] = x"
| "join sep (x # y # ys) = x @ sep @ join sep (y # ys)"

definition newline :: string where
  "newline = [CHR 0x0A]"

text \<open>The separator \<^verbatim>\<open>' \<bullet> '\<close> of line 82 (U+2022 between two spaces), as its UTF-8 bytes.\<close>

definition bullet_separator :: string where
  "bullet_separator = [CHR '' '', CHR 0xE2, CHR 0x80, CHR 0xA2, CHR '' '']"

subsection \<open>Numbers\<close>

text \<open>
  A number is the exact value of the double, a \<^typ>\<open>real\<close>: comparison and the sign of a
  difference are those of the doubles. A product is rounded as IEEE 754 binary64 does: to
  the nearest multiple of the unit in the last place, a tie to the even multiple. The unit
  is \<open>2\<^sup>e\<^sup>-\<^sup>5\<^sup>2\<close> for a value in the binade \<open>2\<^sup>e\<close>, and \<open>2\<^sup>-\<^sup>1\<^sup>0\<^sup>7\<^sup>4\<close> for subnormal values.
  Overflow to \<^verbatim>\<open>Infinity\<close>, beyond \<open>1.8 * 10\<^sup>3\<^sup>0\<^sup>8\<close>, is not modelled.
\<close>

definition pow2 :: "int \<Rightarrow> real" where
  "pow2 e = (if 0 \<le> e then 2 ^ nat e else 1 / 2 ^ nat (- e))"

text \<open>The binade of a positive number: \<open>pow2 (exponent x) \<le> x < pow2 (exponent x + 1)\<close>.\<close>

definition exponent :: "real \<Rightarrow> int" where
  "exponent x = (if 1 \<le> x then bitlen \<lfloor>x\<rfloor> - 1 else - bitlen (\<lceil>1 / x\<rceil> - 1))"

definition round_half_even :: "real \<Rightarrow> int" where
  "round_half_even q =
     (if q - of_int \<lfloor>q\<rfloor> < 1 / 2 then \<lfloor>q\<rfloor>
      else if 1 / 2 < q - of_int \<lfloor>q\<rfloor> then \<lfloor>q\<rfloor> + 1
      else if even \<lfloor>q\<rfloor> then \<lfloor>q\<rfloor> else \<lfloor>q\<rfloor> + 1)"

definition binary64 :: "real \<Rightarrow> real" where
  "binary64 x =
     (if x = 0 then 0
      else of_int (round_half_even (x / pow2 (max (exponent \<bar>x\<bar>) (- 1022) - 52)))
           * pow2 (max (exponent \<bar>x\<bar>) (- 1022) - 52))"

text \<open>\<^verbatim>\<open>a * b\<close> on doubles.\<close>

definition multiply :: "real \<Rightarrow> real \<Rightarrow> real" where
  "multiply a b = binary64 (a * b)"

text \<open>\<^verbatim>\<open>Math.round\<close> rounds to the nearest integer, a tie towards plus infinity.\<close>

definition Math_round :: "real \<Rightarrow> int" where
  "Math_round x = \<lfloor>x + 1 / 2\<rfloor>"

fun digits :: "nat \<Rightarrow> string" where
  "digits n =
     (if n < 10 then [''0123456789'' ! n]
      else digits (n div 10) @ [''0123456789'' ! (n mod 10)])"

declare digits.simps [simp del]

text \<open>
  An integer inside a template literal: its decimal digits, with a sign (JavaScript prints
  them so below \<open>10\<^sup>2\<^sup>1\<close> in magnitude).
\<close>

definition int_text :: "int \<Rightarrow> string" where
  "int_text i = (if i < 0 then CHR ''-'' # digits (nat (- i)) else digits (nat i))"

text \<open>
  \<^verbatim>\<open>x.toFixed(0)\<close>: the sign, then the nearest integer to the magnitude, a tie to the
  larger one.
\<close>

definition toFixed0 :: "real \<Rightarrow> string" where
  "toFixed0 x =
     (if x < 0 then CHR ''-'' # digits (nat (Math_round (- x))) else digits (nat (Math_round x)))"

subsection \<open>The classifier's reply\<close>

text \<open>
  The parsed JSON reply, as far as the content script inspects it. An object is seen through
  two property reads only. \<^verbatim>\<open>label\<close> is read for its truthiness and through
  \<^verbatim>\<open>String(label)\<close>: \<open>None\<close> is a label that is missing, \<^verbatim>\<open>null\<close>, \<^verbatim>\<open>false\<close> or
  zero; \<open>Some s\<close> is the string label \<open>s\<close>, or another truthy label that \<^verbatim>\<open>String\<close> turns
  into the non-empty \<open>s\<close>. \<^verbatim>\<open>score\<close> is kept when \<^verbatim>\<open>typeof score === 'number'\<close>.
  \<open>JOther\<close> is \<^verbatim>\<open>null\<close>, a boolean, a number or a string: not an array and without a
  \<^verbatim>\<open>score\<close>.
\<close>

datatype jsvalue =
    JArray "jsvalue list"
  | JObject "string option" "real option"
  | JOther

fun isArray :: "jsvalue \<Rightarrow> bool" where
  "isArray (JArray vs) = True"
| "isArray v = False"

text \<open>An entry that passed the filter of line 190: an object with a numeric score.\<close>

record item =
  label :: "string option"
  score :: real

text \<open>\<^verbatim>\<open>result.flat()\<close> (and the \<^verbatim>\<open>concat\<close> fallback): arrays are spliced, the rest kept.\<close>

fun spliced :: "jsvalue \<Rightarrow> jsvalue list" where
  "spliced (JArray vs) = vs"
| "spliced v = [v]"

definition flat :: "jsvalue list \<Rightarrow> jsvalue list" where
  "flat vs = concat (map spliced vs)"

text \<open>\<^verbatim>\<open>item && typeof item.score === 'number'\<close>\<close>

fun numericScore :: "jsvalue \<Rightarrow> item option" where
  "numericScore (JObject l (Some s)) = Some \<lparr>label = l, score = s\<rparr>"
| "numericScore v = None"

definition withNumericScore :: "jsvalue list \<Rightarrow> item list" where
  "withNumericScore vs = List.map_filter numericScore vs"

text \<open>Lines 173 to 190: \<open>None\<close> when the reply is not an array or is an empty one.\<close>

fun normalize :: "jsvalue \<Rightarrow> item list option" where
  "normalize (JArray []) = None"
| "normalize (JArray (v # vs)) =
     Some (withNumericScore (if isArray v then flat (v # vs) else v # vs))"
| "normalize v = None"

section \<open>Best label and summary text\<close>

text \<open>
  \<^verbatim>\<open>labelScores.reduce((a, b) => (b.score > a.score ? b : a), { score: -1 })\<close>
  (lines 46, 90 and 196). The seed has no label.
\<close>

definition seed :: item where
  "seed = \<lparr>label = None, score = - 1\<rparr>"

definition best :: "item list \<Rightarrow> item" where
  "best labelScores = foldl (\<lambda>a b. if score b > score a then b else a) seed labelScores"

text \<open>\<^verbatim>\<open>(best && best.label) ? String(best.label).toLowerCase() : 'neutral'\<close>\<close>

definition labelOf :: "item \<Rightarrow> string" where
  "labelOf b =
     (case label b of
        Some l \<Rightarrow> if l \<noteq> [] then toLowerCase l else ''neutral''
      | None \<Rightarrow> ''neutral'')"

text \<open>
  Reading a property of an object literal also finds what \<^verbatim>\<open>Object.prototype\<close> provides.
  Each inherited value is truthy; it is kept as the text \<^verbatim>\<open>String\<close> gives it.
\<close>

definition native_function :: "string \<Rightarrow> string" where
  "native_function name = ''function '' @ name @ ''() { [native code] }''"

definition Object_prototype :: "(string \<times> string) list" where
  "Object_prototype =
     [(''constructor'', native_function ''Object''),
      (''__defineGetter__'', native_function ''__defineGetter__''),
      (''__defineSetter__'', native_function ''__defineSetter__''),
      (''hasOwnProperty'', native_function ''hasOwnProperty''),
      (''__lookupGetter__'', native_function ''__lookupGetter__''),
      (''__lookupSetter__'', native_function ''__lookupSetter__''),
      (''isPrototypeOf'', native_function ''isPrototypeOf''),
      (''propertyIsEnumerable'', native_function ''propertyIsEnumerable''),
      (''toString'', native_function ''toString''),
      (''valueOf'', native_function ''valueOf''),
      (''toLocaleString'', native_function ''toLocaleString''),
      (''__proto__'', ''[object Object]'')]"

definition property :: "(string \<times> string) list \<Rightarrow> string \<Rightarrow> string option" where
  "property literal k =
     (case map_of literal k of Some v \<Rightarrow> Some v | None \<Rightarrow> map_of Object_prototype k)"

definition displayMap :: "(string \<times> string) list" where
  "displayMap =
     [(''negative'', ''NEGATIVE''), (''neutral'', ''NEUTRAL''), (''positive'', ''POSITIVE'')]"

definition classMap :: "(string \<times> string) list" where
  "classMap =
     [(''positive'', ''ps-sentiment-positive''), (''neutral'', ''ps-sentiment-neutral''),
      (''negative'', ''ps-sentiment-negative'')]"

text \<open>A property read inside a template literal; a missing one prints as \<^verbatim>\<open>undefined\<close>.\<close>

definition display :: "string \<Rightarrow> string" where
  "display l = (case property displayMap l of Some v \<Rightarrow> v | None \<Rightarrow> ''undefined'')"

text \<open>
  Lines 41 to 44: \<^verbatim>\<open>scoreMap\<close> starts at zero for the three labels; each entry with a truthy
  label overwrites the score under its lower-cased label, so the last one wins.
  \<^verbatim>\<open>Number(s.score) || 0\<close> is the score itself. Assigning a number to
  \<^verbatim>\<open>__proto__\<close> creates no property.
\<close>

definition scoreMap0 :: "string \<rightharpoonup> real" where
  "scoreMap0 = [''negative'' \<mapsto> 0, ''neutral'' \<mapsto> 0, ''positive'' \<mapsto> 0]"

definition scoreMap :: "item list \<Rightarrow> (string \<rightharpoonup> real)" where
  "scoreMap labelScores =
     foldl (\<lambda>m s. case label s of
                     Some l \<Rightarrow>
                       if l \<noteq> [] \<and> toLowerCase l \<noteq> ''__proto__''
                       then m(toLowerCase l \<mapsto> score s) else m
                   | None \<Rightarrow> m)
           scoreMap0 labelScores"

text \<open>\<^verbatim>\<open>scoreMap[l] || 0\<close>\<close>

definition scoreOr0 :: "(string \<rightharpoonup> real) \<Rightarrow> string \<Rightarrow> real" where
  "scoreOr0 m l = (case m l of Some v \<Rightarrow> v | None \<Rightarrow> 0)"

definition percent :: "real \<Rightarrow> string" where
  "percent x = int_text (Math_round (multiply x 100)) @ ''%''"

definition allLabels :: "string list" where
  "allLabels = [''negative'', ''neutral'', ''positive'']"

definition otherLabels :: "string \<Rightarrow> string list" where
  "otherLabels bestLabel = filter (\<lambda>l. l \<noteq> bestLabel) allLabels"

text \<open>
  Lines 78 to 81. \<^verbatim>\<open>sort((a, b) => b.score - a.score)\<close> is a stable sort that puts the
  larger score first, which is the stable insertion sort on the negated score.
\<close>

definition sortedOtherLabels :: "(string \<rightharpoonup> real) \<Rightarrow> string \<Rightarrow> string list" where
  "sortedOtherLabels m bestLabel =
     map fst (sort_key (\<lambda>p. - snd p) (map (\<lambda>l. (l, scoreOr0 m l)) (otherLabels bestLabel)))"

definition otherStr :: "(string \<rightharpoonup> real) \<Rightarrow> string \<Rightarrow> string" where
  "otherStr m bestLabel =
     join bullet_separator
       (map (\<lambda>l. display l @ '' '' @ percent (scoreOr0 m l)) (sortedOtherLabels m bestLabel))"

text \<open>Line 84, the text of the summary block.\<close>

definition summaryText :: "item list \<Rightarrow> string" where
  "summaryText labelScores =
     (let b = best labelScores; bestLabel = labelOf b
      in display bestLabel @ '' '' @ percent (score b) @ newline
         @ otherStr (scoreMap labelScores) bestLabel)"

text \<open>Line 85, the tooltip.\<close>

definition summaryTitle :: "item list \<Rightarrow> string" where
  "summaryTitle labelScores =
     (let b = best labelScores; m = scoreMap labelScores
      in display (labelOf b) @ '' '' @ percent (score b) @ newline
         @ display ''negative'' @ '': '' @ percent (scoreOr0 m ''negative'') @ newline
         @ display ''neutral'' @ '': '' @ percent (scoreOr0 m ''neutral'') @ newline
         @ display ''positive'' @ '': '' @ percent (scoreOr0 m ''positive''))"

section \<open>The page\<close>

subsection \<open>Elements\<close>

text \<open>
  An element has a tag name, a class list (a token set that keeps insertion order),
  attributes, inline style declarations, the text written by the \<^verbatim>\<open>innerText\<close>
  setter, and child elements.
\<close>

record node =
  tagName :: string
  classList :: "string list"
  attributes :: "(string \<times> string) list"
  inline_style :: "(string \<times> string) list"
  text_content :: string

datatype element = Element (own: node) (children: "element list")

datatype dom_exception = SyntaxError | InvalidCharacterError

datatype completion = Returned | Threw dom_exception

definition and_then ::
  "element \<times> completion \<Rightarrow> (element \<Rightarrow> element \<times> completion) \<Rightarrow> element \<times> completion" where
  "and_then r k = (case r of (e, Returned) \<Rightarrow> k e | (e, Threw x) \<Rightarrow> (e, Threw x))"

definition createElement :: "string \<Rightarrow> element" where
  "createElement t =
     Element \<lparr>tagName = t, classList = [], attributes = [], inline_style = [],
              text_content = []\<rparr> []"

fun hasClass :: "string \<Rightarrow> element \<Rightarrow> bool" where
  "hasClass c (Element n ch) = (c \<in> set (classList n))"

fun set_className :: "string list \<Rightarrow> element \<Rightarrow> element" where
  "set_className cl (Element n ch) = Element (n\<lparr>classList := cl\<rparr>) ch"

text \<open>
  \<^verbatim>\<open>classList.add\<close> and \<^verbatim>\<open>classList.remove\<close> for tokens that are valid: each token
  not yet in the list is appended; each listed token is taken out.
\<close>

definition add_tokens :: "string list \<Rightarrow> string list \<Rightarrow> string list" where
  "add_tokens tokens cl = foldl (\<lambda>acc t. if t \<in> set acc then acc else acc @ [t]) cl tokens"

fun addClasses :: "string list \<Rightarrow> element \<Rightarrow> element" where
  "addClasses tokens (Element n ch) = Element (n\<lparr>classList := add_tokens tokens (classList n)\<rparr>) ch"

fun removeClasses :: "string list \<Rightarrow> element \<Rightarrow> element" where
  "removeClasses tokens (Element n ch) =
     Element (n\<lparr>classList := filter (\<lambda>c. c \<notin> set tokens) (classList n)\<rparr>) ch"

text \<open>
  \<^verbatim>\<open>classList.add\<close> with a computed token. All tokens are validated before any is added:
  an empty token is a \<^verbatim>\<open>SyntaxError\<close>, one with ASCII whitespace an
  \<^verbatim>\<open>InvalidCharacterError\<close>. The tokens written out in the source are valid.
\<close>

fun invalid_token :: "string list \<Rightarrow> dom_exception option" where
  "invalid_token [] = None"
| "invalid_token (t # ts) =
     (if t = [] then Some SyntaxError
      else if list_ex ascii_whitespace t then Some InvalidCharacterError
      else invalid_token ts)"

definition classList_add :: "string list \<Rightarrow> element \<Rightarrow> element \<times> completion" where
  "classList_add tokens e =
     (case invalid_token tokens of
        Some x \<Rightarrow> (e, Threw x)
      | None \<Rightarrow> (addClasses tokens e, Returned))"

fun setAttribute :: "string \<Rightarrow> string \<Rightarrow> element \<Rightarrow> element" where
  "setAttribute name v (Element n ch) =
     Element (n\<lparr>attributes := AList.update name v (attributes n)\<rparr>) ch"

fun getAttribute :: "string \<Rightarrow> element \<Rightarrow> string option" where
  "getAttribute name (Element n ch) = map_of (attributes n) name"

fun set_style :: "string \<Rightarrow> string \<Rightarrow> element \<Rightarrow> element" where
  "set_style name v (Element n ch) =
     Element (n\<lparr>inline_style := AList.update name v (inline_style n)\<rparr>) ch"

text \<open>The \<^verbatim>\<open>innerText\<close> setter replaces whatever the element contained.\<close>

fun set_innerText :: "string \<Rightarrow> element \<Rightarrow> element" where
  "set_innerText s (Element n ch) = Element (n\<lparr>text_content := s\<rparr>) []"

fun appendChild :: "element \<Rightarrow> element \<Rightarrow> element" where
  "appendChild c (Element n ch) = Element n (ch @ [c])"

text \<open>
  \<^verbatim>\<open>querySelector\<close> returns the first descendant, in document order, that matches;
  \<^verbatim>\<open>querySelectorAll\<close> all of them. The element itself is not a candidate.
\<close>

fun descendants :: "element \<Rightarrow> element list" where
  "descendants (Element n ch) = concat (map (\<lambda>c. c # descendants c) ch)"

definition querySelector :: "(element \<Rightarrow> bool) \<Rightarrow> element \<Rightarrow> element option" where
  "querySelector sel e = find sel (descendants e)"

definition querySelectorAll :: "(element \<Rightarrow> bool) \<Rightarrow> element \<Rightarrow> element list" where
  "querySelectorAll sel e = filter sel (descendants e)"

text \<open>
  The scripts mutate the element a query returned. \<open>modify_first\<close> applies such a mutation
  to the first match, in place, and hands back what the mutation reports; \<open>remove_first\<close>
  detaches the first match. Both are \<open>None\<close> when nothing matches.
\<close>

fun modify_first ::
  "(element \<Rightarrow> bool) \<Rightarrow> (element \<Rightarrow> element \<times> 'r) \<Rightarrow> element list \<Rightarrow> (element list \<times> 'r) option" where
  "modify_first sel f [] = None"
| "modify_first sel f (Element n ch # cs) =
     (if sel (Element n ch) then (case f (Element n ch) of (e', r) \<Rightarrow> Some (e' # cs, r))
      else (case modify_first sel f ch of
              Some (ch', r) \<Rightarrow> Some (Element n ch' # cs, r)
            | None \<Rightarrow>
                (case modify_first sel f cs of
                   Some (cs', r) \<Rightarrow> Some (Element n ch # cs', r)
                 | None \<Rightarrow> None)))"

fun remove_first :: "(element \<Rightarrow> bool) \<Rightarrow> element list \<Rightarrow> element list option" where
  "remove_first sel [] = None"
| "remove_first sel (Element n ch # cs) =
     (if sel (Element n ch) then Some cs
      else (case remove_first sel ch of
              Some ch' \<Rightarrow> Some (Element n ch' # cs)
            | None \<Rightarrow>
                (case remove_first sel cs of
                   Some cs' \<Rightarrow> Some (Element n ch # cs')
                 | None \<Rightarrow> None)))"

subsection \<open>Rendering a classification (content script, lines 35 to 100)\<close>

text \<open>
  The argument \<^verbatim>\<open>labelScores\<close> of the two render functions is \<open>None\<close> for a value that
  is not an array and \<open>Some\<close> of the entries otherwise. Each function returns the element as
  it leaves it, and whether it returned or threw.
\<close>

definition sentimentClasses :: "string list" where
  "sentimentClasses = [''ps-sentiment-positive'', ''ps-sentiment-neutral'', ''ps-sentiment-negative'']"

text \<open>Lines 69 to 85, on the summary block.\<close>

definition styleSummary :: "item list \<Rightarrow> element \<Rightarrow> element \<times> completion" where
  "styleSummary labelScores summary =
     (let bestLabel = labelOf (best labelScores)
      in and_then (classList_add [''ps-sentiment-'' @ bestLabel]
                     (removeClasses sentimentClasses summary))
           (\<lambda>s. (setAttribute ''title'' (summaryTitle labelScores)
                   (set_innerText (summaryText labelScores)
                     (setAttribute ''data-label'' bestLabel s)), Returned)))"

definition newSummary :: element where
  "newSummary = set_className [''ps-sentiment-summary''] (createElement ''div'')"

definition applySentimentSummary :: "element \<Rightarrow> item list option \<Rightarrow> element \<times> completion" where
  "applySentimentSummary articleEl labelScores =
     (case labelScores of
        None \<Rightarrow> (articleEl, Returned)
      | Some [] \<Rightarrow> (articleEl, Returned)
      | Some (s # ss) \<Rightarrow>
          (let e = addClasses [''ps-sentiment-container''] articleEl
           in case modify_first (hasClass ''ps-sentiment-summary'') (styleSummary (s # ss))
                     (children e) of
                Some (ch', c) \<Rightarrow> (Element (own e) ch', c)
              | None \<Rightarrow>
                  (case styleSummary (s # ss) newSummary of
                     (summary, c) \<Rightarrow> (appendChild summary e, c))))"

text \<open>\<^verbatim>\<open>classMap[label] || classMap.neutral\<close>\<close>

definition sentimentClassFor :: "string \<Rightarrow> string" where
  "sentimentClassFor l =
     (case property classMap l of Some c \<Rightarrow> c | None \<Rightarrow> ''ps-sentiment-neutral'')"

definition applySentimentToElement :: "element \<Rightarrow> item list option \<Rightarrow> element \<times> completion" where
  "applySentimentToElement articleEl labelScores =
     (case labelScores of
        None \<Rightarrow> (articleEl, Returned)
      | Some [] \<Rightarrow> (articleEl, Returned)
      | Some (s # ss) \<Rightarrow>
          (let l = labelOf (best (s # ss));
               sentimentClass = sentimentClassFor l
           in and_then
                (classList_add [''ps-sentiment-container'', ''ps-sentiment-border'', sentimentClass]
                   (removeClasses (sentimentClasses @ [''ps-sentiment-border'']) articleEl))
                (\<lambda>e. applySentimentSummary (setAttribute ''data-ps-sentiment-label'' l e)
                        (Some (s # ss)))))"

text \<open>Lines 102 to 115.\<close>

definition createSentimentElement :: "string \<Rightarrow> real \<Rightarrow> element" where
  "createSentimentElement l sc =
     (let scorePct = toFixed0 (multiply sc 100);
          displayLabel =
            (case property displayMap (toLowerCase l) of Some v \<Rightarrow> v | None \<Rightarrow> toUpperCase l)
      in addClasses [''ps-inline'']
           (setAttribute ''data-label'' l
             (set_innerText (displayLabel @ '' '' @ scorePct @ ''%'')
               (setAttribute ''title'' (displayLabel @ '' '' @ scorePct @ ''%'')
                 (set_className [''ps-sentiment-ui''] (createElement ''div''))))))"

subsection \<open>Post identity and text (content script, lines 18 to 33 and 117 to 141)\<close>

definition SENTIMENT_MARKER_ATTR :: string where
  "SENTIMENT_MARKER_ATTR = ''data-ps-sentiment''"

definition SENTIMENT_UI_CLASS :: string where
  "SENTIMENT_UI_CLASS = ''ps-sentiment-ui''"

text \<open>\<^verbatim>\<open>sentimentCache\<close>: key to the stored \<^verbatim>\<open>{ labelScores }\<close>.\<close>

type_synonym sentimentCache = "string \<rightharpoonup> item list"

text \<open>\<^verbatim>\<open>postId\<close> is \<open>None\<close> for \<^verbatim>\<open>null\<close>.\<close>

definition cacheKeyFor :: "string option \<Rightarrow> string \<Rightarrow> string" where
  "cacheKeyFor postId txt =
     (case postId of
        Some p \<Rightarrow> if p \<noteq> [] then ''id:'' @ p else ''text:'' @ take 200 txt
      | None \<Rightarrow> ''text:'' @ take 200 txt)"

definition saveToCache :: "string option \<Rightarrow> string \<Rightarrow> item list \<Rightarrow> sentimentCache \<Rightarrow> sentimentCache" where
  "saveToCache postId txt labelScores cache = cache(cacheKeyFor postId txt \<mapsto> labelScores)"

definition getFromCache :: "string option \<Rightarrow> string \<Rightarrow> sentimentCache \<Rightarrow> item list option" where
  "getFromCache postId txt cache = cache (cacheKeyFor postId txt)"

definition is_digit :: "char \<Rightarrow> bool" where
  "is_digit c \<longleftrightarrow> c \<in> set ''0123456789''"

definition startsWith :: "string \<Rightarrow> string \<Rightarrow> bool" where
  "startsWith pat s \<longleftrightarrow> take (length pat) s = pat"

fun contains :: "string \<Rightarrow> string \<Rightarrow> bool" where
  "contains pat [] = (pat = [])"
| "contains pat (c # cs) = (startsWith pat (c # cs) \<or> contains pat cs)"

text \<open>
  \<^verbatim>\<open>href.match(/status\/(\d+)/)\<close>: the leftmost place where \<^verbatim>\<open>status/\<close> is followed by
  a digit; the group is the whole run of digits there.
\<close>

fun match_status :: "string \<Rightarrow> string option" where
  "match_status [] = None"
| "match_status (c # cs) =
     (if startsWith ''status/'' (c # cs) \<and> takeWhile is_digit (drop 7 (c # cs)) \<noteq> []
      then Some (takeWhile is_digit (drop 7 (c # cs)))
      else match_status cs)"

text \<open>The selector \<^verbatim>\<open>a[href*="/status/"]\<close>.\<close>

fun statusLink :: "element \<Rightarrow> bool" where
  "statusLink (Element n ch) =
     (tagName n = ''a'' \<and>
      (case map_of (attributes n) ''href'' of Some h \<Rightarrow> contains ''/status/'' h | None \<Rightarrow> False))"

definition getPostId :: "element \<Rightarrow> string option" where
  "getPostId articleEl =
     (let m = (case querySelector statusLink articleEl of
                 Some anchor \<Rightarrow>
                   (case getAttribute ''href'' anchor of
                      Some h \<Rightarrow> match_status h
                    | None \<Rightarrow> None)
               | None \<Rightarrow> None)
      in case m of
           Some d \<Rightarrow> Some d
         | None \<Rightarrow>
             (case getAttribute ''data-testid'' articleEl of
                Some v \<Rightarrow> if v \<noteq> [] then Some v else None
              | None \<Rightarrow> None))"

text \<open>
  The \<^verbatim>\<open>innerText\<close> getter depends on layout, so the browser's getter is the parameter
  \<open>innerText\<close> of the functions that read it.
\<close>

fun tweetText :: "element \<Rightarrow> bool" where
  "tweetText (Element n ch) = (map_of (attributes n) ''data-testid'' = Some ''tweetText'')"

fun divOrSpan :: "element \<Rightarrow> bool" where
  "divOrSpan (Element n ch) = (tagName n = ''div'' \<or> tagName n = ''span'')"

definition extractTextFromPost :: "(element \<Rightarrow> string) \<Rightarrow> element \<Rightarrow> string" where
  "extractTextFromPost innerText articleEl =
     (case querySelector tweetText articleEl of
        Some textEl \<Rightarrow> trim (innerText textEl)
      | None \<Rightarrow>
          trim (join newline
                  (filter (\<lambda>t. t \<noteq> []) (map innerText (querySelectorAll divOrSpan articleEl)))))"

subsection \<open>Requesting and showing an analysis (content script, lines 143 to 253)\<close>

record message =
  msg_type :: string
  msg_text :: "string option"
  msg_postId :: "string option"

text \<open>
  The reply of the background script: \<^verbatim>\<open>{error}\<close>, or \<^verbatim>\<open>{result}\<close> with or without
  \<^verbatim>\<open>cached: true\<close>.
\<close>

datatype response = ErrorResponse string | ResultResponse jsvalue bool

text \<open>
  The synchronous part of \<^verbatim>\<open>analyzeAndShow\<close>: the element as it leaves it and the
  messages handed to \<^verbatim>\<open>chrome.runtime.sendMessage\<close>.
\<close>

definition analyzeAndShow :: "element \<Rightarrow> string \<Rightarrow> string option \<Rightarrow> element \<times> message list" where
  "analyzeAndShow articleEl txt postId =
     (if getAttribute SENTIMENT_MARKER_ATTR articleEl = Some ''pending''
         \<or> getAttribute SENTIMENT_MARKER_ATTR articleEl = Some ''done''
      then (articleEl, [])
      else (setAttribute SENTIMENT_MARKER_ATTR ''pending'' articleEl,
            [\<lparr>msg_type = ''analyze'', msg_text = Some txt, msg_postId = postId\<rparr>]))"

text \<open>Lines 155 to 158 and 163 to 166.\<close>

definition showError :: "element \<Rightarrow> element" where
  "showError articleEl =
     setAttribute SENTIMENT_MARKER_ATTR ''done''
       (appendChild (set_style ''background'' ''#777'' (createSentimentElement ''ERR'' 0))
          articleEl)"

text \<open>Lines 204 and 205.\<close>

definition removeExisting :: "element \<Rightarrow> element" where
  "removeExisting articleEl =
     (case remove_first (hasClass SENTIMENT_UI_CLASS) (children articleEl) of
        Some ch' \<Rightarrow> Element (own articleEl) ch'
      | None \<Rightarrow> articleEl)"

text \<open>
  The callback given to \<^verbatim>\<open>sendMessage\<close> (lines 151 to 219), run on the element and the
  cache as they are when the reply arrives; \<open>None\<close> is no reply at all.
\<close>

definition onResponse ::
  "element \<Rightarrow> string \<Rightarrow> string option \<Rightarrow> sentimentCache \<Rightarrow> response option
     \<Rightarrow> element \<times> sentimentCache \<times> completion" where
  "onResponse articleEl txt postId cache resp =
     (case resp of
        None \<Rightarrow> (showError articleEl, cache, Returned)
      | Some (ErrorResponse err) \<Rightarrow>
          if err \<noteq> [] then (showError articleEl, cache, Returned)
          else (setAttribute SENTIMENT_MARKER_ATTR ''done'' articleEl, cache, Returned)
      | Some (ResultResponse result cached) \<Rightarrow>
          (case normalize result of
             None \<Rightarrow> (setAttribute SENTIMENT_MARKER_ATTR ''done'' articleEl, cache, Returned)
           | Some [] \<Rightarrow> (setAttribute SENTIMENT_MARKER_ATTR ''done'' articleEl, cache, Returned)
           | Some (s # ss) \<Rightarrow>
               (case applySentimentToElement (removeExisting articleEl) (Some (s # ss)) of
                  (e, Returned) \<Rightarrow>
                    (setAttribute SENTIMENT_MARKER_ATTR ''done'' e,
                     saveToCache postId txt (s # ss) cache, Returned)
                | (e, Threw x) \<Rightarrow> (e, saveToCache postId txt (s # ss) cache, Threw x))))"

definition processPost ::
  "(element \<Rightarrow> string) \<Rightarrow> element \<Rightarrow> sentimentCache \<Rightarrow> element \<times> message list \<times> completion" where
  "processPost innerText articleEl cache =
     (let marker = getAttribute SENTIMENT_MARKER_ATTR articleEl;
          txt = extractTextFromPost innerText articleEl
      in if txt = [] then (articleEl, [], Returned)
         else
           (let postId = getPostId articleEl
            in case getFromCache postId txt cache of
                 Some labelScores \<Rightarrow>
                   (case applySentimentToElement articleEl (Some labelScores) of
                      (e, Returned) \<Rightarrow> (setAttribute SENTIMENT_MARKER_ATTR ''done'' e, [], Returned)
                    | (e, Threw x) \<Rightarrow> (e, [], Threw x))
               | None \<Rightarrow>
                   if marker = Some ''done'' then (articleEl, [], Returned)
                   else (case analyzeAndShow articleEl txt postId of
                           (e, msgs) \<Rightarrow> (e, msgs, Returned))))"

text \<open>
  One scan pass over the posts the selector finds, taken as separate elements. An exception
  leaves \<^verbatim>\<open>forEach\<close>, so the posts after it are not visited.
\<close>

fun scanAndProcessAll ::
  "(element \<Rightarrow> string) \<Rightarrow> element list \<Rightarrow> sentimentCache \<Rightarrow> element list \<times> message list \<times> completion" where
  "scanAndProcessAll innerText [] cache = ([], [], Returned)"
| "scanAndProcessAll innerText (post # posts) cache =
     (case processPost innerText post cache of
        (e, msgs, Threw x) \<Rightarrow> (e # posts, msgs, Threw x)
      | (e, msgs, Returned) \<Rightarrow>
          (case scanAndProcessAll innerText posts cache of
             (es, msgs', c) \<Rightarrow> (e # es, msgs @ msgs', c)))"

section \<open>The background service worker\<close>

definition BACKEND_URL :: string where
  "BACKEND_URL = ''https://ps-2025-backend-production.up.railway.app/analyze''"

definition CACHE_TTL_MS :: int where
  "CACHE_TTL_MS = 1000 * 60 * 2"

text \<open>A cache entry \<^verbatim>\<open>{ ts, result }\<close>; times are milliseconds as \<^verbatim>\<open>Date.now()\<close> gives them.\<close>

record cache_entry =
  ts :: int
  result :: jsvalue

type_synonym background_cache = "string \<rightharpoonup> cache_entry"

text \<open>The request of lines 33 to 39; \<open>body_text\<close> is the text put into the JSON body.\<close>

record fetch_request =
  url :: string
  http_method :: string
  content_type :: string
  body_text :: string

text \<open>
  An \<^verbatim>\<open>Error\<close> object, by its name, and \<^verbatim>\<open>String(err)\<close>. \<open>TypeError\<close> is what
  \<^verbatim>\<open>fetch\<close> and a body read reject with, \<open>JsonSyntaxError\<close> what \<^verbatim>\<open>res.json()\<close> rejects
  with on a body that is not JSON.
\<close>

datatype js_error = Error string | TypeError string | JsonSyntaxError string

definition error_text :: "string \<Rightarrow> string \<Rightarrow> string" where
  "error_text name msg = (if msg = [] then name else name @ '': '' @ msg)"

fun String_of_error :: "js_error \<Rightarrow> string" where
  "String_of_error (Error msg) = error_text ''Error'' msg"
| "String_of_error (TypeError msg) = error_text ''TypeError'' msg"
| "String_of_error (JsonSyntaxError msg) = error_text ''SyntaxError'' msg"

text \<open>
  How the \<^verbatim>\<open>fetch\<close> settles: it rejects, or it resolves with a status, what
  \<^verbatim>\<open>res.text()\<close> gives and what \<^verbatim>\<open>res.json()\<close> gives (each may reject).
\<close>

datatype fetch_outcome =
    Rejected js_error
  | Replied nat "js_error + string" "js_error + jsvalue"

datatype listener_step =
    Ignored
  | Responded response
  | Fetching fetch_request string int

definition backgroundKey :: "string option \<Rightarrow> string \<Rightarrow> string" where
  "backgroundKey postId txt =
     (case postId of Some p \<Rightarrow> p | None \<Rightarrow> []) @ '':'' @ take 200 txt"

text \<open>
  The synchronous part of the listener (lines 13 to 39), at time \<open>now\<close>: the message is
  ignored, answered at once, or a request goes out under the key and the time it was made.
\<close>

definition onMessage :: "background_cache \<Rightarrow> int \<Rightarrow> message option \<Rightarrow> listener_step" where
  "onMessage cache now msg =
     (case msg of
        None \<Rightarrow> Ignored
      | Some m \<Rightarrow>
          if msg_type m \<noteq> ''analyze'' then Ignored
          else
            (case msg_text m of
               None \<Rightarrow> Responded (ErrorResponse ''No text provided'')
             | Some txt \<Rightarrow>
                 if txt = [] then Responded (ErrorResponse ''No text provided'')
                 else
                   (let key = backgroundKey (msg_postId m) txt
                    in case cache key of
                         Some cached \<Rightarrow>
                           if now - ts cached < CACHE_TTL_MS
                           then Responded (ResultResponse (result cached) True)
                           else Fetching \<lparr>url = BACKEND_URL, http_method = ''POST'',
                                          content_type = ''application/json'', body_text = txt\<rparr>
                                         key now
                       | None \<Rightarrow>
                           Fetching \<lparr>url = BACKEND_URL, http_method = ''POST'',
                                     content_type = ''application/json'', body_text = txt\<rparr>
                                    key now)))"

text \<open>
  The promise chain of lines 40 to 54, run on the cache as it is when the request settles:
  the cache afterwards and the reply sent.
\<close>

definition onSettled ::
  "background_cache \<Rightarrow> string \<Rightarrow> int \<Rightarrow> fetch_outcome \<Rightarrow> background_cache \<times> response" where
  "onSettled cache key now outcome =
     (case outcome of
        Rejected err \<Rightarrow> (cache, ErrorResponse (String_of_error err))
      | Replied status body json \<Rightarrow>
          if \<not> (200 \<le> status \<and> status \<le> 299) then
            (case body of
               Inl err \<Rightarrow> (cache, ErrorResponse (String_of_error err))
             | Inr txt \<Rightarrow>
                 (cache,
                  ErrorResponse (String_of_error (Error (''HTTP '' @ digits status @ '': '' @ txt)))))
          else
            (case json of
               Inl err \<Rightarrow> (cache, ErrorResponse (String_of_error err))
             | Inr j \<Rightarrow> (cache(key \<mapsto> \<lparr>ts = now, result = j\<rparr>), ResultResponse j False)))"

text \<open>
  The page cache over a page session. The callback is the only code that writes it, so the
  cache after a series of replies, each for some element, text and post id, is:
\<close>

fun cacheAfterReplies ::
  "(element \<times> string \<times> string option \<times> response option) list \<Rightarrow> sentimentCache \<Rightarrow> sentimentCache" where
  "cacheAfterReplies [] cache = cache"
| "cacheAfterReplies ((articleEl, txt, postId, resp) # replies) cache =
     cacheAfterReplies replies (fst (snd (onResponse articleEl txt postId cache resp)))"

text \<open>
  A post as the feed has it, used in the examples: an article with its permalink and its
  text container.
\<close>

definition example_link :: element where
  "example_link =
     Element \<lparr>tagName = ''a'', classList = [],
              attributes = [(''href'', ''/user/status/12345/photo/1'')],
              inline_style = [], text_content = []\<rparr> []"

definition example_post :: element where
  "example_post =
     Element \<lparr>tagName = ''article'', classList = [], attributes = [(''role'', ''article'')],
              inline_style = [], text_content = []\<rparr>
       [example_link,
        Element \<lparr>tagName = ''div'', classList = [], attributes = [(''data-testid'', ''tweetText'')],
                 inline_style = [], text_content = '' I love this! ''\<rparr> []]"

section \<open>Best-label selection\<close>

lemma best_Nil: "best [] = seed"
  by (simp add: best_def)

lemma best_snoc: "best (xs @ [x]) = (if score x > score (best xs) then x else best xs)"
  by (simp add: best_def)

text \<open>
  What the reduction holds after any prefix: still the seed, when no score so far is above
  \<open>- 1\<close>, or else the first entry with the largest score.
\<close>

lemma best_invariant:
  "(best xs = seed \<and> (\<forall>x\<in>set xs. score x \<le> - 1)) \<or>
   (\<exists>i<length xs. best xs = xs ! i \<and> - 1 < score (xs ! i) \<and>
      (\<forall>j<length xs. score (xs ! j) \<le> score (xs ! i)) \<and>
      (\<forall>j<i. score (xs ! j) < score (xs ! i)))"
proof (induction xs rule: rev_induct)
  case Nil
  show ?case by (simp add: best_Nil)
next
  case (snoc x xs)
  from snoc.IH show ?case
  proof (elim disjE conjE exE)
    assume s: "best xs = seed" and le: "\<forall>x\<in>set xs. score x \<le> - 1"
    show ?thesis
    proof (cases "score x > - 1")
      case True
      have "\<forall>j<length xs. score (xs ! j) \<le> - 1" using le by simp
      with True s have "length xs < length (xs @ [x]) \<and>
          best (xs @ [x]) = (xs @ [x]) ! length xs \<and>
          - 1 < score ((xs @ [x]) ! length xs) \<and>
          (\<forall>j<length (xs @ [x]). score ((xs @ [x]) ! j) \<le> score ((xs @ [x]) ! length xs)) \<and>
          (\<forall>j<length xs. score ((xs @ [x]) ! j) < score ((xs @ [x]) ! length xs))"
        by (auto simp: best_snoc seed_def nth_append less_Suc_eq)
      then show ?thesis by blast
    next
      case False
      with s le show ?thesis by (auto simp: best_snoc seed_def)
    qed
  next
    fix i
    assume i: "i < length xs" and b: "best xs = xs ! i" and above: "- 1 < score (xs ! i)"
      and mx: "\<forall>j<length xs. score (xs ! j) \<le> score (xs ! i)"
      and first: "\<forall>j<i. score (xs ! j) < score (xs ! i)"
    show ?thesis
    proof (cases "score x > score (xs ! i)")
      case True
      with i b above mx have "length xs < length (xs @ [x]) \<and>
          best (xs @ [x]) = (xs @ [x]) ! length xs \<and>
          - 1 < score ((xs @ [x]) ! length xs) \<and>
          (\<forall>j<length (xs @ [x]). score ((xs @ [x]) ! j) \<le> score ((xs @ [x]) ! length xs)) \<and>
          (\<forall>j<length xs. score ((xs @ [x]) ! j) < score ((xs @ [x]) ! length xs))"
        by (auto simp: best_snoc nth_append less_Suc_eq)
      then show ?thesis by blast
    next
      case False
      with i b above mx first have "i < length (xs @ [x]) \<and>
          best (xs @ [x]) = (xs @ [x]) ! i \<and>
          - 1 < score ((xs @ [x]) ! i) \<and>
          (\<forall>j<length (xs @ [x]). score ((xs @ [x]) ! j) \<le> score ((xs @ [x]) ! i)) \<and>
          (\<forall>j<i. score ((xs @ [x]) ! j) < score ((xs @ [x]) ! i))"
        by (auto simp: best_snoc nth_append less_Suc_eq)
      then show ?thesis by blast
    qed
  qed
qed

text \<open>When no score is above the seed's \<open>- 1\<close>, the reduction returns the seed, not an entry.\<close>

lemma best_seed: "\<forall>x\<in>set xs. score x \<le> - 1 \<Longrightarrow> best xs = seed"
  using best_invariant [of xs] by (auto simp: not_less [symmetric])

text \<open>
  C6. For a non-empty list of probabilities (scores between 0 and 1), the selected entry is
  the entry at the first position that carries the largest score: no entry has a larger
  score, and every earlier entry has a strictly smaller one. Among entries that tie for the
  largest score the first in list order is taken, whatever their labels.
\<close>

theorem best_is_first_maximum:
  assumes "labelScores \<noteq> []"
    and "\<forall>x\<in>set labelScores. 0 \<le> score x \<and> score x \<le> 1"
  shows "\<exists>i<length labelScores. best labelScores = labelScores ! i \<and>
           (\<forall>j<length labelScores. score (labelScores ! j) \<le> score (labelScores ! i)) \<and>
           (\<forall>j<i. score (labelScores ! j) < score (labelScores ! i))"
proof -
  from assms(1) obtain x where x: "x \<in> set labelScores"
    by (cases labelScores) auto
  with assms(2) have "\<not> score x \<le> - 1" by force
  with x have "\<not> (\<forall>x\<in>set labelScores. score x \<le> - 1)" by blast
  with best_invariant [of labelScores] show ?thesis by blast
qed

theorem best_is_first_maximum_witness:
  "best [\<lparr>label = Some ''negative'', score = 0.5\<rparr>, \<lparr>label = Some ''positive'', score = 0.5\<rparr>]
     = \<lparr>label = Some ''negative'', score = 0.5\<rparr>
   \<and> best [\<lparr>label = Some ''positive'', score = 0.5\<rparr>, \<lparr>label = Some ''negative'', score = 0.5\<rparr>]
     = \<lparr>label = Some ''positive'', score = 0.5\<rparr>"
proof -
  let ?n = "\<lparr>label = Some ''negative'', score = 0.5\<rparr>"
  let ?p = "\<lparr>label = Some ''positive'', score = 0.5\<rparr>"
  have "\<exists>i<length [?n, ?p]. best [?n, ?p] = [?n, ?p] ! i \<and>
          (\<forall>j<length [?n, ?p]. score ([?n, ?p] ! j) \<le> score ([?n, ?p] ! i)) \<and>
          (\<forall>j<i. score ([?n, ?p] ! j) < score ([?n, ?p] ! i))"
    by (rule best_is_first_maximum) simp_all
  then have a: "best [?n, ?p] = ?n"
    by (auto simp: less_Suc_eq)
  have "\<exists>i<length [?p, ?n]. best [?p, ?n] = [?p, ?n] ! i \<and>
          (\<forall>j<length [?p, ?n]. score ([?p, ?n] ! j) \<le> score ([?p, ?n] ! i)) \<and>
          (\<forall>j<i. score ([?p, ?n] ! j) < score ([?p, ?n] ! i))"
    by (rule best_is_first_maximum) simp_all
  then have b: "best [?p, ?n] = ?p"
    by (auto simp: less_Suc_eq)
  from a b show ?thesis by simp
qed

section \<open>The background listener\<close>

text \<open>
  C5. An analyze request whose text is absent or empty is answered at once with the error
  \<^verbatim>\<open>No text provided\<close>, and the listener starts no request to the classifier.
\<close>

theorem analyze_without_text_rejected:
  assumes "msg_type m = ''analyze''" and "msg_text m = None \<or> msg_text m = Some []"
  shows "onMessage cache now (Some m) = Responded (ErrorResponse ''No text provided'')
         \<and> (\<forall>req key t. onMessage cache now (Some m) \<noteq> Fetching req key t)"
  using assms by (auto simp: onMessage_def)

theorem analyze_without_text_rejected_witness:
  "onMessage Map.empty 1000
     (Some \<lparr>msg_type = ''analyze'', msg_text = Some [], msg_postId = Some ''42''\<rparr>)
     = Responded (ErrorResponse ''No text provided'')
   \<and> onMessage Map.empty 1000
     (Some \<lparr>msg_type = ''analyze'', msg_text = None, msg_postId = None\<rparr>)
     = Responded (ErrorResponse ''No text provided'')"
  using analyze_without_text_rejected
          [of "\<lparr>msg_type = ''analyze'', msg_text = Some [], msg_postId = Some ''42''\<rparr>"
              Map.empty 1000]
        analyze_without_text_rejected
          [of "\<lparr>msg_type = ''analyze'', msg_text = None, msg_postId = None\<rparr>" Map.empty 1000]
  by simp

section \<open>Rendering\<close>

text \<open>
  C10. Called with a value that is not an array, or with an empty array, each of the two
  render functions returns at once and leaves the element exactly as it was: same classes,
  same attributes, same children.
\<close>

theorem render_ignores_non_list:
  assumes "labelScores = None \<or> labelScores = Some []"
  shows "applySentimentSummary articleEl labelScores = (articleEl, Returned)
         \<and> applySentimentToElement articleEl labelScores = (articleEl, Returned)"
  using assms by (auto simp: applySentimentSummary_def applySentimentToElement_def)

theorem render_ignores_non_list_witness:
  "applySentimentSummary (createElement ''article'') (Some []) = (createElement ''article'', Returned)
   \<and> applySentimentToElement (createElement ''article'') None = (createElement ''article'', Returned)"
  using render_ignores_non_list [of "Some []" "createElement ''article''"]
        render_ignores_non_list [of None "createElement ''article''"]
  by simp

section \<open>The two caches\<close>

lemma onResponse_keeps_entries:
  "cache k \<noteq> None \<Longrightarrow> fst (snd (onResponse articleEl txt postId cache resp)) k \<noteq> None"
  by (auto simp: onResponse_def saveToCache_def
           split: option.splits response.splits list.splits prod.splits completion.splits)

lemma cacheAfterReplies_keeps_entries:
  "cache k \<noteq> None \<Longrightarrow> cacheAfterReplies replies cache k \<noteq> None"
proof (induction replies arbitrary: cache)
  case Nil
  then show ?case by simp
next
  case (Cons r replies)
  obtain articleEl tx postId resp where r: "r = (articleEl, tx, postId, resp)"
    by (cases r) auto
  from Cons.prems have "fst (snd (onResponse articleEl tx postId cache resp)) k \<noteq> None"
    by (rule onResponse_keeps_entries)
  then show ?case unfolding r by (simp add: Cons.IH)
qed

text \<open>
  C2. Background cache: once a successful reply \<open>j\<close> was stored under the key of a request
  made at time \<open>t\<close>, a request for the same key while the entry is younger than the TTL is
  answered with \<open>j\<close> from the cache; once the entry is older than the TTL, which is 120
  seconds, a new request goes to the classifier although the entry is still in the map.
  Page cache: what was saved is read back unchanged, no time is involved, and whatever
  replies are handled later, an entry stays stored under the key.
\<close>

theorem cache_roundtrip_and_ttl:
  assumes "msg_type m = ''analyze''" and "msg_text m = Some tx" and "tx \<noteq> []"
    and "200 \<le> status" and "status \<le> 299"
    and "key = backgroundKey (msg_postId m) tx"
    and "cache' = fst (onSettled cache key t (Replied status body (Inr j)))"
  shows "(now - t < CACHE_TTL_MS \<longrightarrow>
            onMessage cache' now (Some m) = Responded (ResultResponse j True))
       \<and> (CACHE_TTL_MS < now - t \<longrightarrow>
            onMessage cache' now (Some m) =
              Fetching \<lparr>url = BACKEND_URL, http_method = ''POST'',
                        content_type = ''application/json'', body_text = tx\<rparr> key now
            \<and> cache' key = Some \<lparr>ts = t, result = j\<rparr>)
       \<and> CACHE_TTL_MS = 120 * 1000
       \<and> getFromCache postId ptxt (saveToCache postId ptxt labelScores pcache) = Some labelScores
       \<and> getFromCache postId ptxt
            (cacheAfterReplies replies (saveToCache postId ptxt labelScores pcache)) \<noteq> None"
proof -
  have c: "cache' = cache(key \<mapsto> \<lparr>ts = t, result = j\<rparr>)"
    using assms(4,5,7) by (simp add: onSettled_def)
  have hit: "now - t < CACHE_TTL_MS \<longrightarrow>
            onMessage cache' now (Some m) = Responded (ResultResponse j True)"
    using assms(1-3,6) by (simp add: onMessage_def c)
  have miss: "CACHE_TTL_MS < now - t \<longrightarrow>
            onMessage cache' now (Some m) =
              Fetching \<lparr>url = BACKEND_URL, http_method = ''POST'',
                        content_type = ''application/json'', body_text = tx\<rparr> key now
            \<and> cache' key = Some \<lparr>ts = t, result = j\<rparr>"
    using assms(1-3,6) by (simp add: onMessage_def c)
  have ttl: "CACHE_TTL_MS = 120 * 1000" by (simp add: CACHE_TTL_MS_def)
  have rt: "getFromCache postId ptxt (saveToCache postId ptxt labelScores pcache) = Some labelScores"
    by (simp add: getFromCache_def saveToCache_def)
  have keep: "getFromCache postId ptxt
            (cacheAfterReplies replies (saveToCache postId ptxt labelScores pcache)) \<noteq> None"
    unfolding getFromCache_def
    by (rule cacheAfterReplies_keeps_entries) (simp add: saveToCache_def)
  from hit miss ttl rt keep show ?thesis by blast
qed

theorem cache_roundtrip_and_ttl_witness:
  "onMessage (fst (onSettled Map.empty ''42:hello'' 5000 (Replied 200 (Inr ''[]'') (Inr (JArray [])))))
      6000 (Some \<lparr>msg_type = ''analyze'', msg_text = Some ''hello'', msg_postId = Some ''42''\<rparr>)
     = Responded (ResultResponse (JArray []) True)
   \<and> onMessage (fst (onSettled Map.empty ''42:hello'' 5000 (Replied 200 (Inr ''[]'') (Inr (JArray [])))))
      125001 (Some \<lparr>msg_type = ''analyze'', msg_text = Some ''hello'', msg_postId = Some ''42''\<rparr>)
     = Fetching \<lparr>url = BACKEND_URL, http_method = ''POST'',
                 content_type = ''application/json'', body_text = ''hello''\<rparr> ''42:hello'' 125001"
proof -
  let ?m = "\<lparr>msg_type = ''analyze'', msg_text = Some ''hello'', msg_postId = Some ''42''\<rparr>"
  let ?c = "fst (onSettled Map.empty ''42:hello'' 5000 (Replied 200 (Inr ''[]'') (Inr (JArray []))))"
  have k: "''42:hello'' = backgroundKey (msg_postId ?m) ''hello''"
    by (simp add: backgroundKey_def)
  have a: "(6000 - 5000 < CACHE_TTL_MS \<longrightarrow>
            onMessage ?c 6000 (Some ?m) = Responded (ResultResponse (JArray []) True))"
    using cache_roundtrip_and_ttl [where m = ?m and tx = "''hello''" and status = 200
        and key = "''42:hello''" and cache' = ?c and cache = Map.empty and t = 5000
        and body = "Inr ''[]''" and j = "JArray []" and now = 6000, OF _ _ _ _ _ k refl]
    by simp
  have b: "(CACHE_TTL_MS < 125001 - 5000 \<longrightarrow>
            onMessage ?c 125001 (Some ?m) =
              Fetching \<lparr>url = BACKEND_URL, http_method = ''POST'',
                        content_type = ''application/json'', body_text = ''hello''\<rparr> ''42:hello'' 125001)"
    using cache_roundtrip_and_ttl [where m = ?m and tx = "''hello''" and status = 200
        and key = "''42:hello''" and cache' = ?c and cache = Map.empty and t = 5000
        and body = "Inr ''[]''" and j = "JArray []" and now = 125001, OF _ _ _ _ _ k refl]
    by simp
  from a b show ?thesis by (simp add: CACHE_TTL_MS_def)
qed

section \<open>Rendering twice\<close>

lemma modify_first_again:
  "\<forall>n ch ch'. sel (Element n ch) = sel (Element n ch') \<Longrightarrow>
   \<forall>x. sel x \<longrightarrow> sel (fst (f x)) \<and> f (fst (f x)) = f x \<Longrightarrow>
   modify_first sel f cs = Some (cs', r) \<Longrightarrow> modify_first sel f cs' = Some (cs', r)"
proof (induction sel f cs arbitrary: cs' r rule: modify_first.induct)
  case (1 sel f)
  then show ?case by simp
next
  case (2 sel f n ch cs)
  note own_only = "2.prems"(1) and idem = "2.prems"(2) and found = "2.prems"(3)
  show ?case
  proof (cases "sel (Element n ch)")
    case True
    obtain e' r' where f: "f (Element n ch) = (e', r')" by (cases "f (Element n ch)")
    with True found have cs': "cs' = e' # cs" and r: "r = r'" by auto
    from f idem True have k: "sel e'" and i: "f e' = (e', r')" by auto
    obtain n' ch' where e': "e' = Element n' ch'" by (cases e')
    from k i show ?thesis unfolding cs' r e' by simp
  next
    case False
    show ?thesis
    proof (cases "modify_first sel f ch")
      case None
      with False found obtain cs2 where
        m: "modify_first sel f cs = Some (cs2, r)" and cs': "cs' = Element n ch # cs2"
        by (auto split: option.splits)
      from "2.IH"(2) [OF False None own_only idem m]
      have "modify_first sel f cs2 = Some (cs2, r)" .
      with False None show ?thesis unfolding cs' by simp
    next
      case (Some a)
      obtain ch' r' where a: "a = (ch', r')" by (cases a)
      with False Some found have cs': "cs' = Element n ch' # cs" and r: "r = r'" by auto
      from "2.IH"(1) [OF False own_only idem] Some a
      have "modify_first sel f ch' = Some (ch', r')" by blast
      moreover from False own_only have "\<not> sel (Element n ch')" by blast
      ultimately show ?thesis unfolding cs' r by simp
    qed
  qed
qed

lemma modify_first_append_new:
  "modify_first sel f cs = None \<Longrightarrow> sel y \<Longrightarrow> f y = (y', r) \<Longrightarrow>
   modify_first sel f (cs @ [y]) = Some (cs @ [y'], r)"
proof (induction sel f cs rule: modify_first.induct)
  case (1 sel f)
  then show ?case by (cases y) simp
next
  case (2 sel f n ch cs)
  then show ?case by (auto split: if_splits option.splits prod.splits)
qed

lemma add_tokens_present: "set tokens \<subseteq> set cl \<Longrightarrow> add_tokens tokens cl = cl"
  unfolding add_tokens_def by (induction tokens arbitrary: cl) auto

lemma update_present: "map_of al k = Some v \<Longrightarrow> AList.update k v al = al"
  by (rule AList.update_triv)

lemma summary_token_validity:
  "invalid_token [''ps-sentiment-'' @ l] =
     (if list_ex ascii_whitespace l then Some InvalidCharacterError else None)"
  by (simp add: ascii_whitespace_def)

lemma styleSummary_Element:
  "styleSummary labelScores (Element n ch) =
     (if list_ex ascii_whitespace (labelOf (best labelScores))
      then (Element (n\<lparr>classList := filter (\<lambda>c. c \<notin> set sentimentClasses) (classList n)\<rparr>) ch,
            Threw InvalidCharacterError)
      else (Element
              (n\<lparr>classList := add_tokens [''ps-sentiment-'' @ labelOf (best labelScores)]
                                (filter (\<lambda>c. c \<notin> set sentimentClasses) (classList n)),
                 attributes := AList.update ''title'' (summaryTitle labelScores)
                                (AList.update ''data-label'' (labelOf (best labelScores))
                                   (attributes n)),
                 text_content := summaryText labelScores\<rparr>) [],
            Returned))"
  unfolding styleSummary_def Let_def classList_add_def summary_token_validity
  by (simp add: and_then_def)

lemma filter_add_token:
  "add_tokens [t] (filter (\<lambda>c. c \<notin> R) (add_tokens [t] (filter (\<lambda>c. c \<notin> R) cl)))
     = add_tokens [t] (filter (\<lambda>c. c \<notin> R) cl)"
  by (simp add: add_tokens_def)

lemma styleSummary_keeps_class:
  "hasClass ''ps-sentiment-summary'' x \<Longrightarrow>
   hasClass ''ps-sentiment-summary'' (fst (styleSummary labelScores x))"
  by (cases x) (simp add: styleSummary_Element add_tokens_def sentimentClasses_def)

lemma styleSummary_idem:
  "styleSummary labelScores (fst (styleSummary labelScores x)) = styleSummary labelScores x"
  by (cases x) (simp add: styleSummary_Element filter_add_token update_conv' update_present)

lemma hasClass_own_only: "\<forall>n ch ch'. hasClass c (Element n ch) = hasClass c (Element n ch')"
  by simp

lemma newSummary_hasClass: "hasClass ''ps-sentiment-summary'' newSummary"
  by (simp add: newSummary_def createElement_def)

lemma applySentimentSummary_Element:
  "applySentimentSummary (Element n ch) (Some (s # ss)) =
     (case modify_first (hasClass ''ps-sentiment-summary'') (styleSummary (s # ss)) ch of
        Some (ch', c) \<Rightarrow>
          (Element (n\<lparr>classList := add_tokens [''ps-sentiment-container''] (classList n)\<rparr>) ch', c)
      | None \<Rightarrow>
          (Element (n\<lparr>classList := add_tokens [''ps-sentiment-container''] (classList n)\<rparr>)
             (ch @ [fst (styleSummary (s # ss) newSummary)]),
           snd (styleSummary (s # ss) newSummary)))"
  by (simp add: applySentimentSummary_def Let_def split: option.splits prod.splits)

lemma add_tokens_twice: "add_tokens [t] (add_tokens [t] cl) = add_tokens [t] cl"
  by (simp add: add_tokens_def)

lemma applySentimentSummary_idem:
  "applySentimentSummary (fst (applySentimentSummary articleEl labelScores)) labelScores
     = applySentimentSummary articleEl labelScores"
proof (cases labelScores)
  case None
  then show ?thesis by (simp add: applySentimentSummary_def)
next
  case (Some ls)
  show ?thesis
  proof (cases ls)
    case Nil
    with Some show ?thesis by (simp add: applySentimentSummary_def)
  next
    case (Cons s ss)
    obtain n ch where el: "articleEl = Element n ch" by (cases articleEl)
    let ?sel = "hasClass ''ps-sentiment-summary''"
    let ?f = "styleSummary (s # ss)"
    have stable: "\<forall>x. ?sel x \<longrightarrow> ?sel (fst (?f x)) \<and> ?f (fst (?f x)) = ?f x"
      by (simp add: styleSummary_keeps_class styleSummary_idem)
    show ?thesis
    proof (cases "modify_first ?sel ?f ch")
      case None
      have "?f (fst (?f newSummary)) = (fst (?f newSummary), snd (?f newSummary))"
        by (simp add: styleSummary_idem)
      with None have "modify_first ?sel ?f (ch @ [fst (?f newSummary)])
          = Some (ch @ [fst (?f newSummary)], snd (?f newSummary))"
        by (intro modify_first_append_new styleSummary_keeps_class newSummary_hasClass)
      with None show ?thesis
        unfolding Some Cons el by (simp add: applySentimentSummary_Element add_tokens_twice)
    next
      case (Some a)
      obtain ch' c where a: "a = (ch', c)" by (cases a)
      from Some a have "modify_first ?sel ?f ch' = Some (ch', c)"
        by (intro modify_first_again [OF hasClass_own_only stable]) simp
      with Some a show ?thesis
        unfolding \<open>labelScores = Some ls\<close> Cons el
        by (simp add: applySentimentSummary_Element add_tokens_twice)
    qed
  qed
qed

lemma sentimentClass_valid:
  "invalid_token [''ps-sentiment-container'', ''ps-sentiment-border'', sentimentClassFor l] = None \<Longrightarrow>
   sentimentClassFor l \<in> set sentimentClasses"
  by (auto simp: sentimentClassFor_def property_def classMap_def Object_prototype_def
                 native_function_def ascii_whitespace_def sentimentClasses_def
           split: if_splits option.splits)

lemma applySentimentToElement_threw:
  assumes "invalid_token [''ps-sentiment-container'', ''ps-sentiment-border'',
                          sentimentClassFor (labelOf (best (s # ss)))] = Some x"
  shows "applySentimentToElement (Element n ch) (Some (s # ss)) =
           (Element (n\<lparr>classList := filter (\<lambda>c. c \<notin> set (sentimentClasses @ [''ps-sentiment-border'']))
                                      (classList n)\<rparr>) ch, Threw x)"
  by (simp add: applySentimentToElement_def Let_def classList_add_def and_then_def assms
           del: invalid_token.simps)

lemma applySentimentToElement_valid:
  assumes "invalid_token [''ps-sentiment-container'', ''ps-sentiment-border'',
                          sentimentClassFor (labelOf (best (s # ss)))] = None"
  shows "applySentimentToElement (Element n ch) (Some (s # ss)) =
           applySentimentSummary
             (Element
                (n\<lparr>classList :=
                     add_tokens [''ps-sentiment-container'', ''ps-sentiment-border'',
                                 sentimentClassFor (labelOf (best (s # ss)))]
                       (filter (\<lambda>c. c \<notin> set (sentimentClasses @ [''ps-sentiment-border'']))
                          (classList n)),
                   attributes := AList.update ''data-ps-sentiment-label''
                                   (labelOf (best (s # ss))) (attributes n)\<rparr>) ch)
             (Some (s # ss))"
  by (simp add: applySentimentToElement_def Let_def classList_add_def and_then_def assms
           del: invalid_token.simps)

lemma add_three_again:
  assumes "c \<notin> R" and "b \<in> R" and "s \<in> R"
  shows "add_tokens [c, b, s] (filter (\<lambda>x. x \<notin> R) (add_tokens [c, b, s] (filter (\<lambda>x. x \<notin> R) cl)))
         = add_tokens [c, b, s] (filter (\<lambda>x. x \<notin> R) cl)"
  using assms by (auto simp: add_tokens_def)

lemma add_three_first: "c \<in> set (add_tokens [c, b, s] cl)"
  by (simp add: add_tokens_def)

lemma container_not_removed:
  "''ps-sentiment-container'' \<notin> set (sentimentClasses @ [''ps-sentiment-border''])"
  by (simp add: sentimentClasses_def)

lemma border_removed:
  "''ps-sentiment-border'' \<in> set (sentimentClasses @ [''ps-sentiment-border''])"
  by simp

lemma applySentimentSummary_own:
  "own (fst (applySentimentSummary (Element n ch) (Some (s # ss))))
     = n\<lparr>classList := add_tokens [''ps-sentiment-container''] (classList n)\<rparr>"
  by (simp add: applySentimentSummary_Element split: option.splits prod.splits)

lemma applySentimentToElement_idem:
  "applySentimentToElement (fst (applySentimentToElement articleEl labelScores)) labelScores
     = applySentimentToElement articleEl labelScores"
proof (cases labelScores)
  case None
  then show ?thesis by (simp add: applySentimentToElement_def)
next
  case (Some ls)
  note ls = this
  show ?thesis
  proof (cases ls)
    case Nil
    with ls show ?thesis by (simp add: applySentimentToElement_def)
  next
    case (Cons s ss)
    obtain n ch where el: "articleEl = Element n ch" by (cases articleEl)
    let ?L = "Some (s # ss)"
    let ?l = "labelOf (best (s # ss))"
    let ?T = "[''ps-sentiment-container'', ''ps-sentiment-border'', sentimentClassFor ?l]"
    let ?R = "set (sentimentClasses @ [''ps-sentiment-border''])"
    show ?thesis
    proof (cases "invalid_token ?T")
      case (Some x)
      define n1 where "n1 = n\<lparr>classList := filter (\<lambda>c. c \<notin> ?R) (classList n)\<rparr>"
      have first: "applySentimentToElement (Element n ch) ?L = (Element n1 ch, Threw x)"
        unfolding n1_def by (rule applySentimentToElement_threw [OF Some])
      have "n1\<lparr>classList := filter (\<lambda>c. c \<notin> ?R) (classList n1)\<rparr> = n1"
        by (simp add: n1_def)
      with applySentimentToElement_threw [OF Some, of n1 ch]
      have second: "applySentimentToElement (Element n1 ch) ?L = (Element n1 ch, Threw x)"
        by simp
      show ?thesis unfolding ls Cons el first by (simp add: second)
    next
      case None
      define n2 where
        "n2 = n\<lparr>classList := add_tokens ?T (filter (\<lambda>c. c \<notin> ?R) (classList n)),
               attributes := AList.update ''data-ps-sentiment-label'' ?l (attributes n)\<rparr>"
      have first: "applySentimentToElement (Element n ch) ?L
                   = applySentimentSummary (Element n2 ch) ?L"
        unfolding n2_def by (rule applySentimentToElement_valid [OF None])
      have cl2: "classList n2 = add_tokens ?T (filter (\<lambda>c. c \<notin> ?R) (classList n))"
        unfolding n2_def by simp
      have at2: "attributes n2 = AList.update ''data-ps-sentiment-label'' ?l (attributes n)"
        unfolding n2_def by simp
      have "''ps-sentiment-container'' \<in> set (classList n2)"
        unfolding cl2 by (rule add_three_first)
      then have "add_tokens [''ps-sentiment-container''] (classList n2) = classList n2"
        by (intro add_tokens_present) simp
      with applySentimentSummary_own [of n2 ch s ss]
      have "own (fst (applySentimentSummary (Element n2 ch) ?L)) = n2"
        by simp
      then obtain ch3 where r: "fst (applySentimentSummary (Element n2 ch) ?L) = Element n2 ch3"
        by (cases "fst (applySentimentSummary (Element n2 ch) ?L)") simp
      have "sentimentClassFor ?l \<in> set sentimentClasses"
        by (rule sentimentClass_valid [OF None])
      then have sc: "sentimentClassFor ?l \<in> ?R" by simp
      have again_cl: "add_tokens ?T (filter (\<lambda>c. c \<notin> ?R) (classList n2)) = classList n2"
        unfolding cl2 by (rule add_three_again [OF container_not_removed border_removed sc])
      have again_at: "AList.update ''data-ps-sentiment-label'' ?l (attributes n2) = attributes n2"
        unfolding at2 by (rule update_present) (simp add: update_conv')
      have again: "n2\<lparr>classList := add_tokens ?T (filter (\<lambda>c. c \<notin> ?R) (classList n2)),
               attributes := AList.update ''data-ps-sentiment-label'' ?l (attributes n2)\<rparr> = n2"
        unfolding again_cl again_at by simp
      have second: "applySentimentToElement (Element n2 ch3) ?L
                    = applySentimentSummary (Element n2 ch3) ?L"
        using applySentimentToElement_valid [OF None, of n2 ch3] unfolding again .
      have third: "applySentimentSummary (Element n2 ch3) ?L
                   = applySentimentSummary (Element n2 ch) ?L"
        using applySentimentSummary_idem [of "Element n2 ch" ?L] unfolding r .
      show ?thesis unfolding ls Cons el first r second by (rule third)
    qed
  qed
qed

text \<open>
  C8. Rendering is idempotent: applying either render function a second time, with the same
  score list, to the element the first call left behind gives the same element (classes,
  attributes, summary text and children, so no second summary block) and the same
  completion. This holds for every element and every argument.
\<close>

theorem render_idempotent:
  "applySentimentToElement (fst (applySentimentToElement articleEl labelScores)) labelScores
     = applySentimentToElement articleEl labelScores
   \<and> applySentimentSummary (fst (applySentimentSummary articleEl labelScores)) labelScores
     = applySentimentSummary articleEl labelScores"
  by (simp add: applySentimentToElement_idem applySentimentSummary_idem)

section \<open>The analysis round trip\<close>

lemma getAttribute_setAttribute:
  "getAttribute k (setAttribute k' v e) = (if k = k' then Some v else getAttribute k e)"
  by (cases e) (simp add: update_conv')

lemma normalize_nested: "normalize (JArray (JArray items # rest)) = Some (withNumericScore (items @ flat rest))"
  by (simp add: flat_def)

lemma onResponse_no_scores:
  "normalize reply = None \<or> normalize reply = Some [] \<Longrightarrow>
   onResponse articleEl tx postId cache (Some (ResultResponse reply cached))
     = (setAttribute SENTIMENT_MARKER_ATTR ''done'' articleEl, cache, Returned)"
  by (auto simp: onResponse_def)

lemma onResponse_scores:
  "normalize reply = Some (s # ss) \<Longrightarrow>
   onResponse articleEl tx postId cache (Some (ResultResponse reply cached))
     = (case applySentimentToElement (removeExisting articleEl) (Some (s # ss)) of
          (e, Returned) \<Rightarrow>
            (setAttribute SENTIMENT_MARKER_ATTR ''done'' e,
             saveToCache postId tx (s # ss) cache, Returned)
        | (e, Threw x) \<Rightarrow> (e, saveToCache postId tx (s # ss) cache, Threw x))"
  by (simp add: onResponse_def)

lemma withNumericScore_empty:
  "withNumericScore vs = [] \<longleftrightarrow> list_all (\<lambda>v. numericScore v = None) vs"
  by (induction vs) (auto simp: withNumericScore_def map_filter_simps split: option.splits)

lemma withNumericScore_objects:
  "withNumericScore vs = [\<lparr>label = l, score = s\<rparr>. JObject l (Some s) \<leftarrow> vs]"
proof (induction vs)
  case Nil
  show ?case by (simp add: withNumericScore_def map_filter_simps)
next
  case (Cons v vs)
  then show ?case
    by (cases v rule: numericScore.cases)
       (simp_all add: withNumericScore_def map_filter_simps)
qed

lemma flat_splice:
  "flat vs = concat (map (\<lambda>v. case v of JArray ys \<Rightarrow> ys | JObject l s \<Rightarrow> [v] | JOther \<Rightarrow> [v]) vs)"
  unfolding flat_def by (induction vs) (auto split: jsvalue.splits)

text \<open>
  C1. A reply whose first element is an array is flattened by exactly one level: the
  elements of the top-level arrays are spliced in and the other elements kept, and of the
  resulting list only the objects with a numeric score remain, in order; an array nested one
  level deeper is dropped, not opened. For a singly nested list of entries the callback does
  exactly what it does for the same list given flat. When entries remain, the callback
  renders them with \<^verbatim>\<open>applySentimentToElement\<close>, stores them in the page cache under the
  post's key and marks the post done. When none remains it only marks the post done: no
  class, no summary, no error marker, nothing cached, and it returns normally.
\<close>

theorem nested_reply_flattened_once:
  assumes "\<forall>v\<in>set items. \<not> isArray v"
  shows "normalize (JArray (JArray inner # rest))
           = Some [\<lparr>label = l, score = s\<rparr>. JObject l (Some s) \<leftarrow>
                     inner @ concat (map (\<lambda>v. case v of JArray ys \<Rightarrow> ys
                                                | JObject l s \<Rightarrow> [v] | JOther \<Rightarrow> [v]) rest)]
       \<and> normalize (JArray [JArray [JArray deep]]) = Some []
       \<and> (items \<noteq> [] \<longrightarrow>
            normalize (JArray items) = Some [\<lparr>label = l, score = s\<rparr>. JObject l (Some s) \<leftarrow> items])
       \<and> onResponse articleEl tx postId cache (Some (ResultResponse (JArray [JArray items]) cached))
         = onResponse articleEl tx postId cache (Some (ResultResponse (JArray items) cached))
       \<and> (normalize reply = Some (x # xs) \<longrightarrow>
            onResponse articleEl tx postId cache (Some (ResultResponse reply cached))
              = (case applySentimentToElement (removeExisting articleEl) (Some (x # xs)) of
                   (e, Returned) \<Rightarrow>
                     (setAttribute ''data-ps-sentiment'' ''done'' e,
                      cache(cacheKeyFor postId tx \<mapsto> x # xs), Returned)
                 | (e, Threw ex) \<Rightarrow> (e, cache(cacheKeyFor postId tx \<mapsto> x # xs), Threw ex)))
       \<and> (normalize reply = Some [] \<longrightarrow>
            onResponse articleEl tx postId cache (Some (ResultResponse reply cached))
              = (setAttribute ''data-ps-sentiment'' ''done'' articleEl, cache, Returned))"
proof -
  have one: "normalize (JArray (JArray inner # rest))
           = Some [\<lparr>label = l, score = s\<rparr>. JObject l (Some s) \<leftarrow>
                     inner @ concat (map (\<lambda>v. case v of JArray ys \<Rightarrow> ys
                                                | JObject l s \<Rightarrow> [v] | JOther \<Rightarrow> [v]) rest)]"
    unfolding normalize_nested withNumericScore_objects flat_splice ..
  have deep: "normalize (JArray [JArray [JArray deep]]) = Some []"
    by (simp add: flat_def withNumericScore_def map_filter_simps)
  have f: "normalize (JArray items) = (if items = [] then None else Some (withNumericScore items))"
    using assms by (cases items) auto
  then have flat_case: "items \<noteq> [] \<longrightarrow>
            normalize (JArray items) = Some [\<lparr>label = l, score = s\<rparr>. JObject l (Some s) \<leftarrow> items]"
    by (simp add: withNumericScore_objects)
  have n: "normalize (JArray [JArray items]) = Some (withNumericScore items)"
    by (simp add: flat_def)
  have same: "onResponse articleEl tx postId cache (Some (ResultResponse (JArray [JArray items]) cached))
         = onResponse articleEl tx postId cache (Some (ResultResponse (JArray items) cached))"
  proof (cases "withNumericScore items")
    case Nil
    with n f show ?thesis by (simp add: onResponse_no_scores)
  next
    case (Cons s ss)
    then have "items \<noteq> []" by (auto simp: withNumericScore_def map_filter_simps)
    with n f Cons show ?thesis by (simp add: onResponse_scores)
  qed
  have scored: "normalize reply = Some (x # xs) \<longrightarrow>
            onResponse articleEl tx postId cache (Some (ResultResponse reply cached))
              = (case applySentimentToElement (removeExisting articleEl) (Some (x # xs)) of
                   (e, Returned) \<Rightarrow>
                     (setAttribute ''data-ps-sentiment'' ''done'' e,
                      cache(cacheKeyFor postId tx \<mapsto> x # xs), Returned)
                 | (e, Threw ex) \<Rightarrow> (e, cache(cacheKeyFor postId tx \<mapsto> x # xs), Threw ex))"
    using onResponse_scores [of reply x xs articleEl tx postId cache cached]
    unfolding saveToCache_def SENTIMENT_MARKER_ATTR_def by blast
  have empty: "normalize reply = Some [] \<longrightarrow>
            onResponse articleEl tx postId cache (Some (ResultResponse reply cached))
              = (setAttribute ''data-ps-sentiment'' ''done'' articleEl, cache, Returned)"
    by (simp add: onResponse_no_scores SENTIMENT_MARKER_ATTR_def)
  from one deep flat_case same scored empty show ?thesis by blast
qed

theorem nested_reply_flattened_once_witness:
  "onResponse example_post ''I love this!'' (Some ''12345'') Map.empty
      (Some (ResultResponse
         (JArray [JArray [JObject (Some ''positive'') (Some 0.9), JObject (Some ''neutral'') (Some 0.05),
                          JObject (Some ''negative'') (Some 0.05)]]) False))
     = onResponse example_post ''I love this!'' (Some ''12345'') Map.empty
      (Some (ResultResponse
         (JArray [JObject (Some ''positive'') (Some 0.9), JObject (Some ''neutral'') (Some 0.05),
                  JObject (Some ''negative'') (Some 0.05)]) False))
   \<and> classList (own (fst (onResponse example_post ''I love this!'' (Some ''12345'') Map.empty
      (Some (ResultResponse
         (JArray [JArray [JObject (Some ''positive'') (Some 0.9), JObject (Some ''neutral'') (Some 0.05),
                          JObject (Some ''negative'') (Some 0.05)]]) False)))))
     = [''ps-sentiment-container'', ''ps-sentiment-border'', ''ps-sentiment-positive'']
   \<and> getAttribute ''data-ps-sentiment'' (fst (onResponse example_post ''I love this!'' (Some ''12345'')
      Map.empty
      (Some (ResultResponse
         (JArray [JArray [JObject (Some ''positive'') (Some 0.9), JObject (Some ''neutral'') (Some 0.05),
                          JObject (Some ''negative'') (Some 0.05)]]) False))))
     = Some ''done''
   \<and> fst (snd (onResponse example_post ''I love this!'' (Some ''12345'') Map.empty
      (Some (ResultResponse
         (JArray [JArray [JObject (Some ''positive'') (Some 0.9), JObject (Some ''neutral'') (Some 0.05),
                          JObject (Some ''negative'') (Some 0.05)]]) False)))) ''id:12345''
     = Some [\<lparr>label = Some ''positive'', score = 0.9\<rparr>, \<lparr>label = Some ''neutral'', score = 0.05\<rparr>,
             \<lparr>label = Some ''negative'', score = 0.05\<rparr>]
   \<and> normalize (JArray [JArray [JArray [JObject (Some ''positive'') (Some 0.9)]]]) = Some []
   \<and> onResponse example_post ''I love this!'' (Some ''12345'') Map.empty
         (Some (ResultResponse (JArray [JArray [JOther, JObject (Some ''positive'') None]]) False))
       = (setAttribute ''data-ps-sentiment'' ''done'' example_post, Map.empty, Returned)"
proof -
  let ?items = "[JObject (Some ''positive'') (Some 0.9), JObject (Some ''neutral'') (Some 0.05),
                 JObject (Some ''negative'') (Some 0.05)]"
  let ?nested = "onResponse example_post ''I love this!'' (Some ''12345'') Map.empty
      (Some (ResultResponse (JArray [JArray ?items]) False))"
  have h: "\<forall>v\<in>set ?items. \<not> isArray v" by simp
  note all = nested_reply_flattened_once [OF h, where articleEl = example_post
      and tx = "''I love this!''" and postId = "Some ''12345''" and cache = Map.empty
      and cached = False and deep = "[JObject (Some ''positive'') (Some 0.9)]"
      and reply = "JArray [JArray [JOther, JObject (Some ''positive'') None]]"]
  note same = all [THEN conjunct2, THEN conjunct2, THEN conjunct2, THEN conjunct1]
  note deep = all [THEN conjunct2, THEN conjunct1]
  have e: "normalize (JArray [JArray [JOther, JObject (Some ''positive'') None]]) = Some []"
    by code_simp
  with all [THEN conjunct2, THEN conjunct2, THEN conjunct2, THEN conjunct2, THEN conjunct2]
  have empty: "onResponse example_post ''I love this!'' (Some ''12345'') Map.empty
         (Some (ResultResponse (JArray [JArray [JOther, JObject (Some ''positive'') None]]) False))
       = (setAttribute ''data-ps-sentiment'' ''done'' example_post, Map.empty, Returned)"
    by blast
  have classes: "classList (own (fst ?nested))
      = [''ps-sentiment-container'', ''ps-sentiment-border'', ''ps-sentiment-positive'']"
    by code_simp
  have marker: "getAttribute ''data-ps-sentiment'' (fst ?nested) = Some ''done''"
    by code_simp
  have cached: "fst (snd ?nested) ''id:12345''
      = Some [\<lparr>label = Some ''positive'', score = 0.9\<rparr>, \<lparr>label = Some ''neutral'', score = 0.05\<rparr>,
              \<lparr>label = Some ''negative'', score = 0.05\<rparr>]"
    by code_simp
  from same classes marker cached deep empty show ?thesis by (intro conjI)
qed

lemma processPost_marked_no_request:
  assumes "getAttribute SENTIMENT_MARKER_ATTR articleEl = Some ''pending''
           \<or> getAttribute SENTIMENT_MARKER_ATTR articleEl = Some ''done''"
  shows "fst (snd (processPost innerText articleEl cache)) = []"
  using assms
  by (auto simp: processPost_def Let_def analyzeAndShow_def
           split: option.splits prod.splits completion.splits)

lemma processPost_request_marks_pending:
  assumes "processPost innerText articleEl cache = (e, msgs, c)" and "msgs \<noteq> []"
  shows "getAttribute SENTIMENT_MARKER_ATTR e = Some ''pending''"
  using assms
  by (auto simp: processPost_def Let_def analyzeAndShow_def getAttribute_setAttribute
           split: option.splits prod.splits completion.splits if_splits)

text \<open>
  C3. A post with text, not yet marked and not in the page cache, is marked pending by the
  pass that sends its analyze message, and that pass sends exactly one message. A later
  pass over the element as the first pass left it, whatever the page cache holds by then,
  sends nothing, so the two passes together issue one request; the background turns that one
  message into one request to the classifier when it has no entry for the key. For any
  pass over any element: when it sends a message it leaves the element pending, and when
  it finds the element pending or done it sends none.
\<close>

theorem one_request_per_unresolved_post:
  assumes "extractTextFromPost innerText articleEl = tx" and "tx \<noteq> []"
    and "getAttribute SENTIMENT_MARKER_ATTR articleEl \<noteq> Some ''pending''"
    and "getAttribute SENTIMENT_MARKER_ATTR articleEl \<noteq> Some ''done''"
    and "getFromCache (getPostId articleEl) tx cache = None"
    and "processPost innerText articleEl cache = (e1, msgs1, c1)"
    and "processPost innerText2 e1 cache2 = (e2, msgs2, c2)"
    and "processPost innerText3 other cache3 = (e3, msgs3, c3)"
  shows "getAttribute SENTIMENT_MARKER_ATTR e1 = Some ''pending''
       \<and> msgs1 = [\<lparr>msg_type = ''analyze'', msg_text = Some tx, msg_postId = getPostId articleEl\<rparr>]
       \<and> msgs2 = []
       \<and> length (msgs1 @ msgs2) = 1
       \<and> (background (backgroundKey (getPostId articleEl) tx) = None \<longrightarrow>
            onMessage background now (Some (hd msgs1))
              = Fetching \<lparr>url = BACKEND_URL, http_method = ''POST'',
                          content_type = ''application/json'', body_text = tx\<rparr>
                         (backgroundKey (getPostId articleEl) tx) now)
       \<and> (msgs3 \<noteq> [] \<longrightarrow> getAttribute SENTIMENT_MARKER_ATTR e3 = Some ''pending'')
       \<and> (getAttribute SENTIMENT_MARKER_ATTR other = Some ''pending''
            \<or> getAttribute SENTIMENT_MARKER_ATTR other = Some ''done'' \<longrightarrow> msgs3 = [])"
proof -
  from assms(1-6) have first:
    "e1 = setAttribute SENTIMENT_MARKER_ATTR ''pending'' articleEl"
    "msgs1 = [\<lparr>msg_type = ''analyze'', msg_text = Some tx, msg_postId = getPostId articleEl\<rparr>]"
    by (auto simp: processPost_def Let_def analyzeAndShow_def)
  then have p: "getAttribute SENTIMENT_MARKER_ATTR e1 = Some ''pending''"
    by (simp add: getAttribute_setAttribute)
  with processPost_marked_no_request [of e1 innerText2 cache2] assms(7)
  have second: "msgs2 = []" by simp
  have bg: "background (backgroundKey (getPostId articleEl) tx) = None \<longrightarrow>
            onMessage background now (Some (hd msgs1))
              = Fetching \<lparr>url = BACKEND_URL, http_method = ''POST'',
                          content_type = ''application/json'', body_text = tx\<rparr>
                         (backgroundKey (getPostId articleEl) tx) now"
    using assms(2) first(2) by (simp add: onMessage_def)
  have sent: "msgs3 \<noteq> [] \<longrightarrow> getAttribute SENTIMENT_MARKER_ATTR e3 = Some ''pending''"
    using processPost_request_marks_pending [OF assms(8)] by blast
  have marked: "getAttribute SENTIMENT_MARKER_ATTR other = Some ''pending''
            \<or> getAttribute SENTIMENT_MARKER_ATTR other = Some ''done'' \<longrightarrow> msgs3 = []"
    using processPost_marked_no_request [of other innerText3 cache3] assms(8) by simp
  from first(2) p second bg sent marked show ?thesis by simp
qed

lemma example_post_text:
  "extractTextFromPost (\<lambda>e. text_content (own e)) example_post = ''I love this!''"
  by code_simp

lemma example_post_link: "querySelector statusLink example_post = Some example_link"
  by code_simp

lemma example_link_match:
  "getAttribute ''href'' example_link = Some ''/user/status/12345/photo/1''"
  "match_status ''/user/status/12345/photo/1'' = Some ''12345''"
  by code_simp+

lemma example_post_id: "getPostId example_post = Some ''12345''"
  by code_simp

theorem one_request_per_unresolved_post_witness:
  "fst (snd (processPost (\<lambda>e. text_content (own e)) example_post Map.empty))
     = [\<lparr>msg_type = ''analyze'', msg_text = Some ''I love this!'', msg_postId = Some ''12345''\<rparr>]
   \<and> fst (snd (processPost (\<lambda>e. text_content (own e))
                 (fst (processPost (\<lambda>e. text_content (own e)) example_post Map.empty)) Map.empty))
     = []
   \<and> getAttribute SENTIMENT_MARKER_ATTR
        (fst (processPost (\<lambda>e. text_content (own e)) example_post Map.empty)) = Some ''pending''
   \<and> fst (snd (processPost (\<lambda>e. text_content (own e))
                 (setAttribute SENTIMENT_MARKER_ATTR ''done'' example_post) Map.empty))
     = []"
proof -
  let ?it = "\<lambda>e. text_content (own e)"
  let ?p1 = "processPost ?it example_post Map.empty"
  let ?p2 = "processPost ?it (fst ?p1) Map.empty"
  have m1: "getAttribute SENTIMENT_MARKER_ATTR example_post \<noteq> Some ''pending''"
    and m2: "getAttribute SENTIMENT_MARKER_ATTR example_post \<noteq> Some ''done''"
    by (simp_all add: example_post_def example_link_def SENTIMENT_MARKER_ATTR_def)
  have c: "getFromCache (getPostId example_post) ''I love this!'' Map.empty = None"
    by (simp add: getFromCache_def)
  have t: "''I love this!'' \<noteq> []" by simp
  have p1: "?p1 = (fst ?p1, fst (snd ?p1), snd (snd ?p1))" by simp
  have p2: "?p2 = (fst ?p2, fst (snd ?p2), snd (snd ?p2))" by simp
  let ?done = "setAttribute SENTIMENT_MARKER_ATTR ''done'' example_post"
  let ?p3 = "processPost ?it ?done Map.empty"
  have p3: "?p3 = (fst ?p3, fst (snd ?p3), snd (snd ?p3))" by simp
  note both = one_request_per_unresolved_post
    [OF example_post_text t m1 m2 c p1 p2 p1, where background = Map.empty and now = 0]
  from both [THEN conjunct2, THEN conjunct1]
  have first: "fst (snd ?p1)
      = [\<lparr>msg_type = ''analyze'', msg_text = Some ''I love this!'', msg_postId = Some ''12345''\<rparr>]"
    unfolding example_post_id .
  from both [THEN conjunct2, THEN conjunct2, THEN conjunct1]
  have second: "fst (snd ?p2) = []" .
  from both [THEN conjunct2, THEN conjunct2, THEN conjunct2, THEN conjunct2, THEN conjunct2,
             THEN conjunct1] first
  have pending: "getAttribute SENTIMENT_MARKER_ATTR (fst ?p1) = Some ''pending''" by simp
  note later = one_request_per_unresolved_post
    [OF example_post_text t m1 m2 c p1 p2 p3, where background = Map.empty and now = 0]
  have "getAttribute SENTIMENT_MARKER_ATTR ?done = Some ''done''"
    by (simp add: getAttribute_setAttribute)
  with later [THEN conjunct2, THEN conjunct2, THEN conjunct2, THEN conjunct2, THEN conjunct2,
              THEN conjunct2]
  have third: "fst (snd ?p3) = []" by blast
  from first second pending third show ?thesis by (intro conjI)
qed

lemma String_of_error_truthy: "String_of_error err \<noteq> []"
  by (cases err) (simp_all add: error_text_def)

lemma failed_settles_with_error:
  assumes "outcome = Rejected err \<or> (outcome = Replied status body json \<and> (status < 200 \<or> 299 < status))"
  shows "\<exists>msg. msg \<noteq> [] \<and> onSettled background key now outcome = (background, ErrorResponse msg)"
  using assms
  by (auto simp: onSettled_def String_of_error_truthy simp del: String_of_error.simps
           split: sum.splits)

lemma showError_parts:
  "getAttribute SENTIMENT_MARKER_ATTR (showError articleEl) = Some ''done''"
  "classList (own (showError articleEl)) = classList (own articleEl)"
  "children (showError articleEl)
     = children articleEl @ [set_style ''background'' ''#777'' (createSentimentElement ''ERR'' 0)]"
  by (cases articleEl; simp add: showError_def update_conv')+

lemma error_marker_classes:
  "classList (own (set_style ''background'' ''#777'' (createSentimentElement ''ERR'' 0)))
     = [''ps-sentiment-ui'', ''ps-inline'']"
  by (simp add: createSentimentElement_def Let_def createElement_def add_tokens_def)

text \<open>
  C4. When the request to the classifier is rejected, or answered with a status outside
  200 to 299, the background catches it, stores nothing and replies with a non-empty error
  text. The callback then returns normally, leaves the page cache as it was, appends the
  grey \<^verbatim>\<open>ERR 0%\<close> marker (classes \<^verbatim>\<open>ps-sentiment-ui ps-inline\<close>, none of the three
  sentiment classes), leaves the post's own classes untouched and marks the post done; no
  later pass sends a request for it.
\<close>

theorem failed_request_shows_error:
  assumes "outcome = Rejected err \<or> (outcome = Replied status body json \<and> (status < 200 \<or> 299 < status))"
    and "onSettled background key now outcome = (background', resp)"
    and "onResponse articleEl tx postId cache (Some resp) = (e, cache', c)"
  shows "background' = background \<and> cache' = cache \<and> c = Returned
       \<and> (\<exists>msg. msg \<noteq> [] \<and> resp = ErrorResponse msg)
       \<and> e = showError articleEl
       \<and> getAttribute SENTIMENT_MARKER_ATTR e = Some ''done''
       \<and> classList (own e) = classList (own articleEl)
       \<and> children e
          = children articleEl @ [set_style ''background'' ''#777'' (createSentimentElement ''ERR'' 0)]
       \<and> classList (own (set_style ''background'' ''#777'' (createSentimentElement ''ERR'' 0)))
          = [''ps-sentiment-ui'', ''ps-inline'']
       \<and> fst (snd (processPost innerText e cache2)) = []"
proof -
  from failed_settles_with_error [OF assms(1), of background key now] assms(2)
  obtain msg where msg: "msg \<noteq> []" and resp: "resp = ErrorResponse msg"
    and bg: "background' = background"
    by auto
  from assms(3) msg have r: "e = showError articleEl" "cache' = cache" "c = Returned"
    unfolding resp by (simp_all add: onResponse_def)
  have "fst (snd (processPost innerText e cache2)) = []"
    unfolding r(1) by (rule processPost_marked_no_request) (simp add: showError_parts)
  with msg resp bg r show ?thesis
    by (simp add: showError_parts error_marker_classes)
qed

theorem failed_request_shows_error_witness:
  "onSettled Map.empty ''42:I love this!'' 1000
      (Replied 500 (Inr ''server error'') (Inl (JsonSyntaxError ''Unexpected token s'')))
     = (Map.empty, ErrorResponse ''Error: HTTP 500: server error'')
   \<and> onResponse example_post ''I love this!'' (Some ''42'') Map.empty
        (Some (ErrorResponse ''Error: HTTP 500: server error''))
     = (showError example_post, Map.empty, Returned)
   \<and> getAttribute SENTIMENT_MARKER_ATTR (showError example_post) = Some ''done''
   \<and> fst (snd (processPost (\<lambda>e. text_content (own e)) (showError example_post) Map.empty)) = []"
proof -
  let ?out = "Replied 500 (Inr ''server error'') (Inl (JsonSyntaxError ''Unexpected token s''))"
  let ?resp = "ErrorResponse ''Error: HTTP 500: server error''"
  have s: "onSettled Map.empty ''42:I love this!'' 1000 ?out = (Map.empty, ?resp)"
    by (simp add: onSettled_def error_text_def digits.simps)
  have h: "?out = Rejected (Error []) \<or>
           (?out = Replied 500 (Inr ''server error'') (Inl (JsonSyntaxError ''Unexpected token s''))
            \<and> ((500::nat) < 200 \<or> 299 < (500::nat)))"
    by simp
  have r: "onResponse example_post ''I love this!'' (Some ''42'') Map.empty (Some ?resp)
           = (fst (onResponse example_post ''I love this!'' (Some ''42'') Map.empty (Some ?resp)),
              fst (snd (onResponse example_post ''I love this!'' (Some ''42'') Map.empty (Some ?resp))),
              snd (snd (onResponse example_post ''I love this!'' (Some ''42'') Map.empty (Some ?resp))))"
    by simp
  from failed_request_shows_error [OF h s r, of "\<lambda>e. text_content (own e)" Map.empty] s
  show ?thesis
    by (metis prod.collapse)
qed

section \<open>The summary block\<close>





subsection \<open>Rounding to doubles\<close>

lemma pow2_pos: "0 < pow2 e"
  by (simp add: pow2_def)

lemma exponent_bounds:
  assumes "0 < x"
  shows "pow2 (exponent x) \<le> x \<and> x < pow2 (exponent x + 1)"
proof (cases "1 \<le> x")
  case True
  then have f: "0 < \<lfloor>x\<rfloor>" by simp
  from bitlen_bounds [OF f] have lo: "2 ^ nat (bitlen \<lfloor>x\<rfloor> - 1) \<le> \<lfloor>x\<rfloor>"
    and hi: "\<lfloor>x\<rfloor> < 2 ^ nat (bitlen \<lfloor>x\<rfloor>)" by auto
  from f have b: "1 \<le> bitlen \<lfloor>x\<rfloor>" by (auto simp: bitlen_alt_def)
  from lo have "(2::real) ^ nat (bitlen \<lfloor>x\<rfloor> - 1) \<le> of_int \<lfloor>x\<rfloor>"
    by (metis of_int_le_iff of_int_numeral of_int_power)
  also have "\<dots> \<le> x" by simp
  finally have l: "pow2 (exponent x) \<le> x"
    using True b by (simp add: exponent_def pow2_def)
  from hi have "\<lfloor>x\<rfloor> + 1 \<le> 2 ^ nat (bitlen \<lfloor>x\<rfloor>)" by simp
  then have "of_int (\<lfloor>x\<rfloor> + 1) \<le> (2::real) ^ nat (bitlen \<lfloor>x\<rfloor>)"
    by (metis of_int_le_iff of_int_numeral of_int_power)
  moreover have "x < of_int (\<lfloor>x\<rfloor> + 1)" by linarith
  ultimately have "x < 2 ^ nat (bitlen \<lfloor>x\<rfloor>)" by linarith
  with True b have "x < pow2 (exponent x + 1)"
    by (simp add: exponent_def pow2_def)
  with l show ?thesis by simp
next
  case False
  with assms have x: "0 < x" "x < 1" by simp_all
  then have y: "1 < 1 / x" by simp
  let ?c = "\<lceil>1 / x\<rceil> - 1"
  let ?k = "bitlen ?c"
  from y have c: "0 < ?c" by linarith
  from bitlen_bounds [OF c] have lo: "2 ^ nat (?k - 1) \<le> ?c" and hi: "?c < 2 ^ nat ?k" by auto
  from c have k: "1 \<le> ?k" by (auto simp: bitlen_alt_def)
  have e: "exponent x = - ?k" using False by (simp add: exponent_def)
  from hi have "\<lceil>1 / x\<rceil> \<le> 2 ^ nat ?k" by simp
  then have "of_int \<lceil>1 / x\<rceil> \<le> (2::real) ^ nat ?k"
    by (metis of_int_le_iff of_int_numeral of_int_power)
  then have "1 / x \<le> 2 ^ nat ?k" by linarith
  with x have "1 / 2 ^ nat ?k \<le> x"
    by (simp add: field_simps)
  with k have l: "pow2 (exponent x) \<le> x" unfolding e by (simp add: pow2_def)
  from lo have "of_int (2 ^ nat (?k - 1)) \<le> (of_int ?c :: real)"
    using of_int_le_iff by blast
  then have "(2::real) ^ nat (?k - 1) \<le> of_int ?c" by simp
  moreover have "of_int ?c < 1 / x" by linarith
  ultimately have "(2::real) ^ nat (?k - 1) < 1 / x" by linarith
  with x have u: "x < 1 / 2 ^ nat (?k - 1)"
    by (simp add: field_simps)
  have "pow2 (exponent x + 1) = 1 / 2 ^ nat (?k - 1)"
  proof (cases "?k = 1")
    case True
    then show ?thesis unfolding e by (simp add: pow2_def)
  next
    case False
    with k have "1 < ?k" by simp
    then show ?thesis unfolding e by (simp add: pow2_def)
  qed
  with u l show ?thesis by simp
qed

lemma round_half_even_near: "\<bar>of_int (round_half_even q) - q\<bar> \<le> 1 / 2"
  unfolding round_half_even_def by (simp; linarith)


text \<open>The rounded value is a multiple of the unit, at most half a unit from the exact one.\<close>

lemma binary64_nearest:
  assumes "x \<noteq> 0" and "u = pow2 (max (exponent \<bar>x\<bar>) (- 1022) - 52)"
  shows "\<exists>n. binary64 x = of_int n * u \<and> \<bar>binary64 x - x\<bar> \<le> u / 2"
proof -
  from assms(2) have u: "0 < u" by (simp add: pow2_pos)
  let ?n = "round_half_even (x / u)"
  have b: "binary64 x = of_int ?n * u"
    using assms by (simp add: binary64_def)
  have "of_int ?n * u - x = (of_int ?n - x / u) * u"
    using u by (simp add: field_simps)
  then have "\<bar>of_int ?n * u - x\<bar> = \<bar>of_int ?n - x / u\<bar> * u"
    using u by (simp add: abs_mult)
  also have "\<dots> \<le> 1 / 2 * u"
    using round_half_even_near [of "x / u"] u by (intro mult_right_mono) simp_all
  finally show ?thesis using b by auto
qed


text \<open>
  The double nearest to 0.015 lies just below it; its product with 100 is rounded up to
  the double 1.5, which \<^verbatim>\<open>Math.round\<close> takes to 2.
\<close>

lemma percent_of_double:
  "multiply (1080863910568919 / 72057594037927936) 100 = 3 / 2"
  "percent (1080863910568919 / 72057594037927936) = ''2%''"
  by code_simp+

subsection \<open>The text of the summary\<close>












section \<open>Post identity\<close>

lemma match_status_Some:
  "match_status h = Some d \<Longrightarrow>
   d \<noteq> [] \<and> list_all is_digit d \<and>
   (\<exists>pre post. h = pre @ ''status/'' @ d @ post \<and> (post = [] \<or> \<not> is_digit (hd post)))"
proof (induction h)
  case Nil
  then show ?case by simp
next
  case (Cons c cs)
  show ?case
  proof (cases "startsWith ''status/'' (c # cs) \<and> takeWhile is_digit (drop 7 (c # cs)) \<noteq> []")
    case True
    with Cons.prems have d: "d = takeWhile is_digit (drop 7 (c # cs))" by simp
    from True have "take (length ''status/'') (c # cs) = ''status/''"
      by (simp only: startsWith_def)
    moreover have "length ''status/'' = 7" by simp
    ultimately have "take 7 (c # cs) = ''status/''" by (simp only:)
    then have "c # cs = ''status/'' @ drop 7 (c # cs)"
      by (metis append_take_drop_id)
    also have "drop 7 (c # cs) = d @ dropWhile is_digit (drop 7 (c # cs))"
      unfolding d by simp
    finally have split: "c # cs = [] @ ''status/'' @ d @ dropWhile is_digit (drop 7 (c # cs))" by simp
    have "dropWhile is_digit (drop 7 (c # cs)) = []
          \<or> \<not> is_digit (hd (dropWhile is_digit (drop 7 (c # cs))))"
      by (metis hd_dropWhile)
    with split True d show ?thesis
      by (metis (no_types, lifting) list_all_iff set_takeWhileD)
  next
    case False
    with Cons.prems have "match_status cs = Some d" by auto
    from Cons.IH [OF this] obtain pre post where
      "d \<noteq> []" "list_all is_digit d" "cs = pre @ ''status/'' @ d @ post"
      "post = [] \<or> \<not> is_digit (hd post)"
      by blast
    then have "c # cs = (c # pre) @ ''status/'' @ d @ post" by simp
    with \<open>d \<noteq> []\<close> \<open>list_all is_digit d\<close> \<open>post = [] \<or> \<not> is_digit (hd post)\<close>
    show ?thesis by blast
  qed
qed

text \<open>
  C9. The page-side key of a post is \<^verbatim>\<open>id:\<close> followed by its identifier when
  \<^verbatim>\<open>getPostId\<close> finds one, whatever the text, and otherwise \<^verbatim>\<open>text:\<close> followed by the
  first 200 characters of the extracted text; the page cache finds an entry under that
  key. The identifier is the run of digits after \<^verbatim>\<open>status/\<close> in the href of the first
  permalink when that href has one, and otherwise the post's non-empty \<^verbatim>\<open>data-testid\<close>.
  The background key is built differently: it is always the identifier (empty when there is
  none), a colon and the first 200 characters of the text, and the listener looks up and
  requests under that key. On both sides the same identifier and the same first 200
  characters give the same key.
\<close>

theorem post_identity_key:
  "(getPostId articleEl = Some p \<longrightarrow>
      p \<noteq> [] \<and> cacheKeyFor (getPostId articleEl) tx = ''id:'' @ p)
   \<and> (getPostId articleEl = None \<longrightarrow>
      cacheKeyFor (getPostId articleEl) tx = ''text:'' @ take 200 tx)
   \<and> (querySelector statusLink articleEl = Some anchor \<and> getAttribute ''href'' anchor = Some h
       \<and> match_status h = Some d \<longrightarrow>
      getPostId articleEl = Some d \<and> d \<noteq> [] \<and> list_all is_digit d
      \<and> (\<exists>pre post. h = pre @ ''status/'' @ d @ post \<and> (post = [] \<or> \<not> is_digit (hd post))))
   \<and> (querySelector statusLink articleEl = None
       \<or> (querySelector statusLink articleEl = Some anchor \<and> getAttribute ''href'' anchor = Some h
          \<and> match_status h = None) \<longrightarrow>
      getPostId articleEl
        = (case getAttribute ''data-testid'' articleEl of
             Some v \<Rightarrow> if v \<noteq> [] then Some v else None
           | None \<Rightarrow> None))
   \<and> (take 200 tx = take 200 tx2 \<longrightarrow>
      cacheKeyFor postId tx = cacheKeyFor postId tx2
      \<and> backgroundKey postId tx = backgroundKey postId tx2)
   \<and> getFromCache postId tx
        (pcache((case postId of
                   Some q \<Rightarrow> if q \<noteq> [] then ''id:'' @ q else ''text:'' @ take 200 tx
                 | None \<Rightarrow> ''text:'' @ take 200 tx) \<mapsto> labelScores)) = Some labelScores
   \<and> backgroundKey postId tx = (case postId of Some q \<Rightarrow> q | None \<Rightarrow> []) @ '':'' @ take 200 tx
   \<and> (msg_type m = ''analyze'' \<and> msg_text m = Some tx \<and> tx \<noteq> []
       \<and> background ((case msg_postId m of Some q \<Rightarrow> q | None \<Rightarrow> []) @ '':'' @ take 200 tx) = None
       \<longrightarrow>
      onMessage background now (Some m)
        = Fetching \<lparr>url = BACKEND_URL, http_method = ''POST'',
                    content_type = ''application/json'', body_text = tx\<rparr>
                   ((case msg_postId m of Some q \<Rightarrow> q | None \<Rightarrow> []) @ '':'' @ take 200 tx) now)
   \<and> (msg_type m = ''analyze'' \<and> msg_text m = Some tx \<and> tx \<noteq> []
       \<and> background ((case msg_postId m of Some q \<Rightarrow> q | None \<Rightarrow> []) @ '':'' @ take 200 tx)
           = Some \<lparr>ts = t, result = j\<rparr>
       \<and> now - t < 120000 \<longrightarrow>
      onMessage background now (Some m) = Responded (ResultResponse j True))"
proof -
  have a: "getPostId articleEl = Some p \<longrightarrow>
      p \<noteq> [] \<and> cacheKeyFor (getPostId articleEl) tx = ''id:'' @ p"
    using match_status_Some
    by (auto simp: getPostId_def cacheKeyFor_def Let_def split: option.splits if_splits)
  have b: "getPostId articleEl = None \<longrightarrow>
      cacheKeyFor (getPostId articleEl) tx = ''text:'' @ take 200 tx"
    by (simp add: cacheKeyFor_def)
  have c: "querySelector statusLink articleEl = Some anchor \<and> getAttribute ''href'' anchor = Some h
       \<and> match_status h = Some d \<longrightarrow>
      getPostId articleEl = Some d \<and> d \<noteq> [] \<and> list_all is_digit d
      \<and> (\<exists>pre post. h = pre @ ''status/'' @ d @ post \<and> (post = [] \<or> \<not> is_digit (hd post)))"
    using match_status_Some [of h d] by (simp add: getPostId_def)
  have d: "querySelector statusLink articleEl = None
       \<or> (querySelector statusLink articleEl = Some anchor \<and> getAttribute ''href'' anchor = Some h
          \<and> match_status h = None) \<longrightarrow>
      getPostId articleEl
        = (case getAttribute ''data-testid'' articleEl of
             Some v \<Rightarrow> if v \<noteq> [] then Some v else None
           | None \<Rightarrow> None)"
    by (auto simp: getPostId_def)
  have e: "take 200 tx = take 200 tx2 \<longrightarrow>
      cacheKeyFor postId tx = cacheKeyFor postId tx2
      \<and> backgroundKey postId tx = backgroundKey postId tx2"
    by (simp add: cacheKeyFor_def backgroundKey_def split: option.splits)
  have f: "getFromCache postId tx
        (pcache((case postId of
                   Some q \<Rightarrow> if q \<noteq> [] then ''id:'' @ q else ''text:'' @ take 200 tx
                 | None \<Rightarrow> ''text:'' @ take 200 tx) \<mapsto> labelScores)) = Some labelScores"
    by (simp add: getFromCache_def cacheKeyFor_def split: option.splits)
  have g: "backgroundKey postId tx = (case postId of Some q \<Rightarrow> q | None \<Rightarrow> []) @ '':'' @ take 200 tx"
    by (simp add: backgroundKey_def)
  have h: "msg_type m = ''analyze'' \<and> msg_text m = Some tx \<and> tx \<noteq> []
       \<and> background ((case msg_postId m of Some q \<Rightarrow> q | None \<Rightarrow> []) @ '':'' @ take 200 tx) = None
       \<longrightarrow>
      onMessage background now (Some m)
        = Fetching \<lparr>url = BACKEND_URL, http_method = ''POST'',
                    content_type = ''application/json'', body_text = tx\<rparr>
                   ((case msg_postId m of Some q \<Rightarrow> q | None \<Rightarrow> []) @ '':'' @ take 200 tx) now"
    by (auto simp: onMessage_def backgroundKey_def Let_def)
  have i: "msg_type m = ''analyze'' \<and> msg_text m = Some tx \<and> tx \<noteq> []
       \<and> background ((case msg_postId m of Some q \<Rightarrow> q | None \<Rightarrow> []) @ '':'' @ take 200 tx)
           = Some \<lparr>ts = t, result = j\<rparr>
       \<and> now - t < 120000 \<longrightarrow>
      onMessage background now (Some m) = Responded (ResultResponse j True)"
    by (auto simp: onMessage_def backgroundKey_def Let_def CACHE_TTL_MS_def)
  from a b c d e f g h i show ?thesis by blast
qed

text \<open>
  C9, the background side. With an identifier present the background key still changes with
  the text, so it is not the identifier alone; the page key is.
\<close>

theorem background_key_includes_text:
  "backgroundKey (Some ''12345'') ''first text'' = ''12345:first text''
   \<and> backgroundKey (Some ''12345'') ''other text'' = ''12345:other text''
   \<and> backgroundKey (Some ''12345'') ''first text'' \<noteq> backgroundKey (Some ''12345'') ''other text''
   \<and> cacheKeyFor (Some ''12345'') ''first text'' = ''id:12345''
   \<and> cacheKeyFor (Some ''12345'') ''other text'' = ''id:12345''"
  by (simp add: backgroundKey_def cacheKeyFor_def)

theorem post_identity_key_witness:
  "getPostId example_post = Some ''12345''
   \<and> cacheKeyFor (getPostId example_post) ''I love this!'' = ''id:12345''
   \<and> getPostId (createElement ''article'') = None
   \<and> cacheKeyFor (getPostId (createElement ''article'')) ''I love this!'' = ''text:I love this!''
   \<and> backgroundKey (Some ''12345'') ''I love this!'' = ''12345:I love this!''
   \<and> onMessage Map.empty 1000
        (Some \<lparr>msg_type = ''analyze'', msg_text = Some ''I love this!'', msg_postId = Some ''12345''\<rparr>)
      = Fetching \<lparr>url = BACKEND_URL, http_method = ''POST'',
                  content_type = ''application/json'', body_text = ''I love this!''\<rparr>
                 ''12345:I love this!'' 1000
   \<and> onMessage [''12345:I love this!'' \<mapsto> \<lparr>ts = 0, result = JArray []\<rparr>] 1000
        (Some \<lparr>msg_type = ''analyze'', msg_text = Some ''I love this!'', msg_postId = Some ''12345''\<rparr>)
      = Responded (ResultResponse (JArray []) True)"
proof -
  let ?m = "\<lparr>msg_type = ''analyze'', msg_text = Some ''I love this!'', msg_postId = Some ''12345''\<rparr>"
  note linked = post_identity_key
    [where articleEl = example_post and anchor = example_link
       and h = "''/user/status/12345/photo/1''" and d = "''12345''" and p = "''12345''"
       and tx = "''I love this!''" and ?tx2.0 = "''I love this!''" and postId = "Some ''12345''"
       and m = ?m and now = 1000 and t = 0 and j = "JArray []"]
  from linked [where background = Map.empty, THEN conjunct2, THEN conjunct2, THEN conjunct1]
    example_post_link example_link_match
  have id: "getPostId example_post = Some ''12345''" by blast
  with linked [where background = Map.empty, THEN conjunct1]
  have key: "cacheKeyFor (getPostId example_post) ''I love this!'' = ''id:'' @ ''12345''" by blast
  from linked [where background = Map.empty, THEN conjunct2, THEN conjunct2, THEN conjunct2,
               THEN conjunct2, THEN conjunct2, THEN conjunct2, THEN conjunct1]
  have bg: "backgroundKey (Some ''12345'') ''I love this!'' = ''12345:I love this!''"
    by simp
  from linked [where background = Map.empty, THEN conjunct2, THEN conjunct2, THEN conjunct2,
               THEN conjunct2, THEN conjunct2, THEN conjunct2, THEN conjunct2, THEN conjunct1]
  have miss: "onMessage Map.empty 1000 (Some ?m)
      = Fetching \<lparr>url = BACKEND_URL, http_method = ''POST'',
                  content_type = ''application/json'', body_text = ''I love this!''\<rparr>
                 ''12345:I love this!'' 1000"
    by simp
  from linked [where background = "[''12345:I love this!'' \<mapsto> \<lparr>ts = 0, result = JArray []\<rparr>]",
               THEN conjunct2, THEN conjunct2, THEN conjunct2,
               THEN conjunct2, THEN conjunct2, THEN conjunct2, THEN conjunct2, THEN conjunct2]
  have hit: "onMessage [''12345:I love this!'' \<mapsto> \<lparr>ts = 0, result = JArray []\<rparr>] 1000 (Some ?m)
      = Responded (ResultResponse (JArray []) True)"
    by simp
  note plain = post_identity_key
    [where articleEl = "createElement ''article''" and tx = "''I love this!''"]
  have q: "querySelector statusLink (createElement ''article'') = None"
    by (simp add: querySelector_def createElement_def)
  have t: "getAttribute ''data-testid'' (createElement ''article'') = None"
    by (simp add: createElement_def)
  from plain [THEN conjunct2, THEN conjunct2, THEN conjunct2, THEN conjunct1] q t
  have none: "getPostId (createElement ''article'') = None" by simp
  with plain [THEN conjunct2, THEN conjunct1]
  have textkey: "cacheKeyFor (getPostId (createElement ''article'')) ''I love this!''
                 = ''text:'' @ take 200 ''I love this!''"
    by blast
  from id key none textkey bg miss hit show ?thesis by simp
qed

end
